theory Spec2Isabelle
  imports Main
begin

text \<open>
  A shallow embedding of the broker delegation of the browser authentication library: the
  Broker (\<^verbatim>\<open>BrokerClientApplication\<close>), the validation of a handshake response
  (\<^verbatim>\<open>BrokerHandshakeResponse\<close>), the entry points of \<^verbatim>\<open>PublicClientApplication\<close> and
  \<^verbatim>\<open>ExperimentalClientApplication\<close>, and \<^verbatim>\<open>ClientInfo\<close>.

  A method is a function from the state of its object to the events it causes, the state it
  leaves and its outcome; a thrown exception and a rejected promise are the outcome
  \<open>Inl e\<close>. A value that may be \<^verbatim>\<open>undefined\<close> or \<^verbatim>\<open>null\<close> is an \<open>option\<close>.
  Classes and functions that the modelled files call and do not contain (the base class
  \<^verbatim>\<open>ClientApplication\<close>, the browser storage, the embedded application, the message
  validators, \<^verbatim>\<open>CryptoUtils\<close>, \<^verbatim>\<open>StringUtils.matchPattern\<close>, \<^verbatim>\<open>JSON\<close>) are
  parameters: records of functions, of which the theorems hold for every instance.
\<close>

section \<open>Errors\<close>

text \<open>
  Every exception the modelled code can raise is a value of this type. The first three are
  raised by the JavaScript runtime, the others by the library's error factories
  (\<^verbatim>\<open>ClientAuthError\<close>, \<^verbatim>\<open>BrowserAuthError\<close>, \<^verbatim>\<open>BrokerAuthError\<close>) or by a
  collaborator (token endpoint, popup, iframe).
\<close>

datatype error =
    TypeError
  | SyntaxError
  | InvalidBase64
  | ClientInfoDecodingError error
  | UntrustedBrokerError
  | NoAccountError
  | NoTokensToCacheError
  | NonBrowserEnvironmentError
  | InteractionInProgressError
  | InvalidStateError
  | InteractionRequiredAuthError
  | ServerError string
  | NetworkError string

section \<open>ClientInfo\<close>

subsection \<open>Strings\<close>

text \<open>
  \<^verbatim>\<open>String.prototype.split\<close> with a one-character separator: the result is never empty,
  \<^verbatim>\<open>"".split("-")\<close> is \<^verbatim>\<open>[""]\<close> and \<^verbatim>\<open>"a-".split("-")\<close> is \<^verbatim>\<open>["a", ""]\<close>.
\<close>

fun js_split :: "char \<Rightarrow> string \<Rightarrow> string list" where
  "js_split sep [] = [[]]"
| "js_split sep (c # cs) =
     (if c = sep then [] # js_split sep cs
      else (case js_split sep cs of [] \<Rightarrow> [[c]] | w # ws \<Rightarrow> (c # w) # ws))"

text \<open>\<^verbatim>\<open>Array.prototype.join\<close> with a one-character separator.\<close>

fun js_join :: "char \<Rightarrow> string list \<Rightarrow> string" where
  "js_join sep [] = []"
| "js_join sep [w] = w"
| "js_join sep (w # v # ws) = w @ sep # js_join sep (v # ws)"

text \<open>
  \<^verbatim>\<open>StringUtils.isEmpty\<close>: true of \<^verbatim>\<open>undefined\<close>, \<^verbatim>\<open>null\<close> and the empty string.
  A value that may be absent is an \<open>option\<close>.
\<close>

fun isEmpty :: "string option \<Rightarrow> bool" where
  "isEmpty None = True"
| "isEmpty (Some s) = (s = [])"

subsection \<open>The class\<close>

text \<open>
  The private fields \<^verbatim>\<open>_uid\<close> and \<^verbatim>\<open>_utid\<close> are \<^verbatim>\<open>undefined\<close> until a setter
  runs; the getters turn a falsy field into the empty string.
\<close>

record ClientInfo =
  priv_uid :: "string option"
  priv_utid :: "string option"

definition uid :: "ClientInfo \<Rightarrow> string" where
  "uid c = (case priv_uid c of None \<Rightarrow> [] | Some s \<Rightarrow> (if s \<noteq> [] then s else []))"

definition utid :: "ClientInfo \<Rightarrow> string" where
  "utid c = (case priv_utid c of None \<Rightarrow> [] | Some s \<Rightarrow> (if s \<noteq> [] then s else []))"

text \<open>
  What \<^verbatim>\<open>JSON.parse\<close> hands to the constructor, read through the cast to
  \<^verbatim>\<open>ClientInfo\<close>: a falsy value (\<open>None\<close>), or an object whose own properties
  \<^verbatim>\<open>uid\<close> and \<^verbatim>\<open>utid\<close>, where present, are strings.
\<close>

record parsed_client_info =
  json_uid :: "string option"
  json_utid :: "string option"

text \<open>
  \<^verbatim>\<open>CryptoUtils\<close> and \<^verbatim>\<open>JSON\<close> are collaborators of the class; they are parameters
  of the model. \<open>JSON_stringify\<close> takes the pair written as \<^verbatim>\<open>{uid: ..., utid: ...}\<close>.
\<close>

record codec =
  base64Encode :: "string \<Rightarrow> string"
  base64Decode :: "string \<Rightarrow> error + string"
  JSON_stringify :: "string \<times> string \<Rightarrow> string"
  JSON_parse :: "string \<Rightarrow> error + parsed_client_info option"

text \<open>
  The policy segment that \<^verbatim>\<open>stripPolicyFromUid\<close> reads off the reversed URL segments:
  the first one when it is not empty, otherwise the second one when there is one, otherwise
  the empty string.
\<close>

definition policy_of :: "string list \<Rightarrow> string" where
  "policy_of urlSegments =
     (case urlSegments of
        [] \<Rightarrow> []
      | s0 # rest \<Rightarrow>
          (if \<not> isEmpty (Some s0) then s0
           else (case rest of [] \<Rightarrow> [] | s1 # _ \<Rightarrow> s1)))"

definition stripPolicyFromUid :: "string \<Rightarrow> string \<Rightarrow> string" where
  "stripPolicyFromUid u authority =
     (let uidSegments = js_split CHR ''-'' u;
          urlSegments = rev (js_split CHR ''/'' authority);
          policy = policy_of urlSegments
      in (case rev uidSegments of
            [] \<Rightarrow> u
          | lastSegment # _ \<Rightarrow>
              (if lastSegment = policy then js_join CHR ''-'' (butlast uidSegments) else u)))"

text \<open>
  The constructor. A null or empty raw string sets both fields to the empty string and
  returns; otherwise every exception of decoding and parsing is caught and raised again as
  a client-info decoding error.
\<close>

definition ClientInfo_constructor :: "codec \<Rightarrow> string option \<Rightarrow> string \<Rightarrow> error + ClientInfo" where
  "ClientInfo_constructor cu rawClientInfo authority =
     (case rawClientInfo of
        None \<Rightarrow> Inr \<lparr>priv_uid = Some [], priv_utid = Some []\<rparr>
      | Some raw \<Rightarrow>
          (if isEmpty (Some raw) then Inr \<lparr>priv_uid = Some [], priv_utid = Some []\<rparr>
           else
             (case base64Decode cu raw of
                Inl e \<Rightarrow> Inl (ClientInfoDecodingError e)
              | Inr decodedClientInfo \<Rightarrow>
                  (case JSON_parse cu decodedClientInfo of
                     Inl e \<Rightarrow> Inl (ClientInfoDecodingError e)
                   | Inr None \<Rightarrow> Inr \<lparr>priv_uid = None, priv_utid = None\<rparr>
                   | Inr (Some clientInfo) \<Rightarrow>
                       Inr \<lparr>priv_uid =
                              map_option (\<lambda>u. stripPolicyFromUid u authority) (json_uid clientInfo),
                            priv_utid = json_utid clientInfo\<rparr>))))"

definition encodeClientInfo :: "codec \<Rightarrow> ClientInfo \<Rightarrow> string" where
  "encodeClientInfo cu c = base64Encode cu (JSON_stringify cu (uid c, utid c))"


subsection \<open>A concrete codec\<close>

text \<open>
  Standard base64 over the bytes of a string, and the text that \<^verbatim>\<open>JSON.stringify\<close>
  writes for \<^verbatim>\<open>{uid, utid}\<close> when neither string needs escaping, with a reader for
  exactly that text. They instantiate the collaborators on concrete inputs.
\<close>

definition base64_alphabet :: string where
  "base64_alphabet = ''ABCDEFGHIJKLMNOPQRSTUVWXYZabcdefghijklmnopqrstuvwxyz0123456789+/''"

definition base64_digit :: "nat \<Rightarrow> char" where
  "base64_digit n = base64_alphabet ! (n mod 64)"

fun base64_of_bytes :: "nat list \<Rightarrow> string" where
  "base64_of_bytes [] = []"
| "base64_of_bytes [a] =
     [base64_digit (a div 4), base64_digit ((a mod 4) * 16), CHR ''='', CHR ''='']"
| "base64_of_bytes [a, b] =
     [base64_digit (a div 4), base64_digit ((a mod 4) * 16 + b div 16),
      base64_digit ((b mod 16) * 4), CHR ''='']"
| "base64_of_bytes (a # b # c # bs) =
     [base64_digit (a div 4), base64_digit ((a mod 4) * 16 + b div 16),
      base64_digit ((b mod 16) * 4 + c div 64), base64_digit (c mod 64)] @ base64_of_bytes bs"

definition base64_value :: "char \<Rightarrow> nat option" where
  "base64_value c = find (\<lambda>i. base64_alphabet ! i = c) [0..<64]"

fun bytes_of_base64 :: "string \<Rightarrow> nat list option" where
  "bytes_of_base64 [] = Some []"
| "bytes_of_base64 (a # b # c # d # cs) =
     (case (base64_value a, base64_value b) of
        (Some x, Some y) \<Rightarrow>
          (if c = CHR ''='' \<and> d = CHR ''='' \<and> cs = [] then Some [x * 4 + y div 16]
           else (case base64_value c of
                   None \<Rightarrow> None
                 | Some z \<Rightarrow>
                     (if d = CHR ''='' \<and> cs = []
                      then Some [x * 4 + y div 16, (y mod 16) * 16 + z div 4]
                      else (case (base64_value d, bytes_of_base64 cs) of
                              (Some w, Some bs) \<Rightarrow>
                                Some ([x * 4 + y div 16, (y mod 16) * 16 + z div 4,
                                       (z mod 4) * 64 + w] @ bs)
                            | _ \<Rightarrow> None))))
      | _ \<Rightarrow> None)"
| "bytes_of_base64 _ = None"

definition quote :: char where
  "quote = CHR 0x22"

definition stringify_uid_utid :: "string \<times> string \<Rightarrow> string" where
  "stringify_uid_utid p =
     [CHR ''{'', quote] @ ''uid'' @ [quote, CHR '':'', quote] @ fst p @ [quote, CHR '','', quote]
       @ ''utid'' @ [quote, CHR '':'', quote] @ snd p @ [quote, CHR ''}'']"

fun strip_prefix :: "string \<Rightarrow> string \<Rightarrow> string option" where
  "strip_prefix [] s = Some s"
| "strip_prefix (p # ps) [] = None"
| "strip_prefix (p # ps) (c # cs) = (if p = c then strip_prefix ps cs else None)"

definition parse_uid_utid :: "string \<Rightarrow> error + parsed_client_info option" where
  "parse_uid_utid s =
     (case strip_prefix ([CHR ''{'', quote] @ ''uid'' @ [quote, CHR '':'', quote]) s of
        None \<Rightarrow> Inl SyntaxError
      | Some r1 \<Rightarrow>
          (case strip_prefix ([quote, CHR '','', quote] @ ''utid'' @ [quote, CHR '':'', quote])
                  (dropWhile (\<lambda>c. c \<noteq> quote) r1) of
             None \<Rightarrow> Inl SyntaxError
           | Some r2 \<Rightarrow>
               (if dropWhile (\<lambda>c. c \<noteq> quote) r2 = [quote, CHR ''}'']
                then Inr (Some \<lparr>json_uid = Some (takeWhile (\<lambda>c. c \<noteq> quote) r1),
                                json_utid = Some (takeWhile (\<lambda>c. c \<noteq> quote) r2)\<rparr>)
                else Inl SyntaxError)))"

definition exampleCodec :: codec where
  "exampleCodec =
     \<lparr>base64Encode = (\<lambda>s. base64_of_bytes (map of_char s)),
      base64Decode =
        (\<lambda>s. case bytes_of_base64 s of None \<Rightarrow> Inl InvalidBase64 | Some bs \<Rightarrow> Inr (map char_of bs)),
      JSON_stringify = stringify_uid_utid,
      JSON_parse = parse_uid_utid\<rparr>"

text \<open>
  The claim's wording of the policy segment, for comparison with \<open>policy_of\<close>: the last
  segment of the authority that is not empty, if there is one.
\<close>

definition trailing_nonempty_segment :: "string \<Rightarrow> string option" where
  "trailing_nonempty_segment authority =
     (case filter (\<lambda>s. s \<noteq> []) (rev (js_split CHR ''/'' authority)) of
        [] \<Rightarrow> None
      | s # _ \<Rightarrow> Some s)"


section \<open>Requests, results and messages\<close>

type_synonym AccountInfo = string
type_synonym port = nat
type_synonym window = nat

datatype InteractionType = Redirect | Popup | Silent | None_interaction

text \<open>
  The acquisition request as the application and the Broker pass it on: the fields of
  \<^verbatim>\<open>SilentRequest\<close>, \<^verbatim>\<open>PopupRequest\<close> and \<^verbatim>\<open>AuthorizationUrlRequest\<close> that the
  modelled code reads, and the fields the Broker adds to a brokered request.
\<close>

record request =
  scopes :: "string list"
  authority :: "string option"
  account :: "AccountInfo option"
  forceRefresh :: bool
  state :: "string option"
  nonce :: "string option"
  redirectUri :: "string option"
  embeddedAppClientId :: "string option"
  embeddedAppRedirectUri :: "string option"
  brokerRedirectUri :: "string option"

record RequestThumbprint =
  tp_authority :: "string option"
  tp_clientId :: string
  tp_scopes :: "string list"

record BrokerAuthenticationResult =
  res_account :: "AccountInfo option"
  accessToken :: string
  tokensToCache :: "string option"
  responseThumbprint :: RequestThumbprint

text \<open>The messages the Broker writes to a port or a window.\<close>

datatype BrokerMessage =
    BrokerHandshakeResponseMessage string string
  | BrokerAuthResponse InteractionType "BrokerAuthenticationResult option" "error option"
  | BrokerRedirectResponse

text \<open>
  A raw message event. \<open>data\<close> is \<open>None\<close> when the event carries no object;
  a field of the payload is \<open>None\<close> when it is missing or falsy. \<open>origin\<close>,
  \<open>source\<close> and \<open>ports\<close> are set by the browser, not by the sender's payload.
\<close>

datatype BrokerMessageType =
    HANDSHAKE_REQUEST | HANDSHAKE_RESPONSE | HANDLE_REDIRECT_REQUEST
  | AUTH_REQUEST | AUTH_RESPONSE | REDIRECT_RESPONSE | UnknownMessageType string

record message_data =
  messageType :: "BrokerMessageType option"
  data_version :: "string option"
  data_brokerOrigin :: "string option"
  data_embeddedClientId :: "string option"
  data_interactionType :: "InteractionType option"
  data_request :: "request option"

record MessageEvent =
  data :: "message_data option"
  origin :: string
  source :: "window option"
  ports :: "port list"

record BrokerHandshakeRequest =
  hr_version :: string

record BrokerHandshakeResponse =
  version :: string
  brokerOrigin :: string

record BrokerAuthRequest =
  interactionType :: InteractionType
  embeddedClientId :: string
  embeddedAppOrigin :: string
  request :: request

text \<open>
  The validators of the message classes are not part of the modelled files; they are
  parameters. \<open>envelopeValid\<close> is the verdict of \<^verbatim>\<open>BrokerMessage.validateMessage\<close>,
  which returns the event itself or \<^verbatim>\<open>null\<close>.
\<close>

record validators =
  envelopeValid :: "MessageEvent \<Rightarrow> bool"
  BrokerHandshakeRequest_validate :: "MessageEvent \<Rightarrow> BrokerHandshakeRequest option"
  BrokerHandleRedirectRequest_validate :: "MessageEvent \<Rightarrow> unit option"
  BrokerAuthRequest_validate :: "MessageEvent \<Rightarrow> BrokerAuthRequest option"

definition BrokerMessage_validateMessage :: "validators \<Rightarrow> MessageEvent \<Rightarrow> MessageEvent option" where
  "BrokerMessage_validateMessage v message = (if envelopeValid v message then Some message else None)"

text \<open>
  \<^verbatim>\<open>BrokerHandshakeResponse.validate\<close>. \<open>matchPattern\<close> is
  \<^verbatim>\<open>StringUtils.matchPattern\<close>, a parameter. The result is the thrown error, \<open>Inr None\<close>
  for \<^verbatim>\<open>null\<close>, or the validated response.
\<close>

definition BrokerHandshakeResponse_validate ::
  "validators \<Rightarrow> (string \<Rightarrow> string \<Rightarrow> bool) \<Rightarrow> MessageEvent \<Rightarrow> string list
     \<Rightarrow> error + BrokerHandshakeResponse option" where
  "BrokerHandshakeResponse_validate v matchPattern message0 trustedBrokerDomains =
     (case BrokerMessage_validateMessage v message0 of
        None \<Rightarrow> Inr None
      | Some message \<Rightarrow>
          (case data message of
             None \<Rightarrow> Inl TypeError
           | Some d \<Rightarrow>
               (if messageType d = Some HANDSHAKE_RESPONSE
                then
                  (case data_version d of
                     None \<Rightarrow> Inr None
                   | Some ver \<Rightarrow>
                       (if isEmpty (Some ver) then Inr None
                        else
                          (let matchedDomains =
                                 filter (\<lambda>domain. matchPattern domain (origin message))
                                   trustedBrokerDomains
                           in if length matchedDomains \<le> 0 then Inl UntrustedBrokerError
                              else Inr (Some \<lparr>version = ver, brokerOrigin = origin message\<rparr>))))
                else Inr None)))"


section \<open>Effects\<close>

datatype EventType = ACQUIRE_TOKEN_START | ACQUIRE_TOKEN_SUCCESS | ACQUIRE_TOKEN_FAILURE

text \<open>
  What a run does beyond returning: every call on a port, a window, the browser storage, an
  inherited acquisition method of \<^verbatim>\<open>ClientApplication\<close> or the embedded application is
  recorded, in program order. Calls on the logger are left out.
\<close>

datatype event =
    PostMessage port BrokerMessage
  | ClosePort port
  | WindowPostMessage window BrokerMessage string
  | GetBrokerResponseByOrigin string
  | GetBrokerResponseByThumbprint RequestThumbprint string
  | SetMemoryCache string string
  | SetActiveAccount "AccountInfo option"
  | UpdateCacheEntries string "string option" "string option"
  | SuperHandleRedirectPromise "string option"
  | BrokerHandleRedirectPromise "string option"
  | CreateSilentFlowClient "string option"
  | AcquireCachedToken request
  | AcquireTokenByRefreshToken request
  | AcquireTokenByIframe request
  | AcquireTokenPopupAsync request
  | AcquireTokenRedirectAsync request
  | SuperAcquireTokenPopup request
  | OpenSizedPopup
  | SendSilentRefreshRequest request
  | SendPopupRequest request
  | SendHandleRedirectRequest
  | EmitEvent EventType "error option"

text \<open>
  A piece of code is a function from the state of its object to the events it causes, the
  state it leaves and its outcome: the thrown error (a rejected promise) or the value.
\<close>

type_synonym ('s, 'a) prog = "'s \<Rightarrow> event list \<times> 's \<times> (error + 'a)"

definition ret :: "'a \<Rightarrow> ('s, 'a) prog" where
  "ret x = (\<lambda>s. ([], s, Inr x))"

definition throw :: "error \<Rightarrow> ('s, 'a) prog" where
  "throw e = (\<lambda>s. ([], s, Inl e))"

definition emit :: "event \<Rightarrow> ('s, unit) prog" where
  "emit ev = (\<lambda>s. ([ev], s, Inr ()))"

text \<open>A call of a collaborator: the event, and the outcome the collaborator gives.\<close>

definition call :: "event \<Rightarrow> error + 'a \<Rightarrow> ('s, 'a) prog" where
  "call ev r = (\<lambda>s. ([ev], s, r))"

definition bindP :: "('s, 'a) prog \<Rightarrow> ('a \<Rightarrow> ('s, 'b) prog) \<Rightarrow> ('s, 'b) prog" where
  "bindP m f =
     (\<lambda>s. case m s of
             (evs, s', Inl e) \<Rightarrow> (evs, s', Inl e)
           | (evs, s', Inr x) \<Rightarrow> (case f x s' of (evs', s'', r) \<Rightarrow> (evs @ evs', s'', r)))"

definition seqP :: "('s, 'a) prog \<Rightarrow> ('s, 'b) prog \<Rightarrow> ('s, 'b) prog" where
  "seqP m n = bindP m (\<lambda>_. n)"

definition tryCatch :: "('s, 'a) prog \<Rightarrow> (error \<Rightarrow> ('s, 'a) prog) \<Rightarrow> ('s, 'a) prog" where
  "tryCatch m h =
     (\<lambda>s. case m s of
             (evs, s', Inl e) \<Rightarrow> (case h e s' of (evs', s'', r) \<Rightarrow> (evs @ evs', s'', r))
           | (evs, s', Inr x) \<Rightarrow> (evs, s', Inr x))"

text \<open>
  \<^verbatim>\<open>clientMessage.ports[0]\<close> is \<^verbatim>\<open>undefined\<close> when no port was transferred, and a
  method call on \<^verbatim>\<open>undefined\<close> throws a \<^verbatim>\<open>TypeError\<close>.
\<close>

definition port0 :: "MessageEvent \<Rightarrow> port option" where
  "port0 clientMessage = (case ports clientMessage of [] \<Rightarrow> None | p # _ \<Rightarrow> Some p)"

definition postMessage :: "port option \<Rightarrow> BrokerMessage \<Rightarrow> ('s, unit) prog" where
  "postMessage clientPort m =
     (case clientPort of None \<Rightarrow> throw TypeError | Some p \<Rightarrow> emit (PostMessage p m))"

definition closePort :: "port option \<Rightarrow> ('s, unit) prog" where
  "closePort clientPort =
     (case clientPort of None \<Rightarrow> throw TypeError | Some p \<Rightarrow> emit (ClosePort p))"

section \<open>Collaborators\<close>

text \<open>
  The methods the modelled classes inherit from \<^verbatim>\<open>ClientApplication\<close> or call on
  \<^verbatim>\<open>ProtocolUtils\<close> and \<^verbatim>\<open>JSON\<close>. Each awaited method is given by the outcome of
  its promise. \<open>parseRequestState\<close> gives the \<^verbatim>\<open>userRequestState\<close> of the parsed state,
  empty when there is none.
\<close>

record collaborators =
  preflightBrowserEnvironmentCheck :: "InteractionType \<Rightarrow> error option"
  preflightInteractiveRequest :: "request \<Rightarrow> InteractionType \<Rightarrow> error + request"
  initializeBaseRequest :: "request \<Rightarrow> request"
  createSilentFlowClient :: "string option \<Rightarrow> error option"
  acquireCachedToken :: "request \<Rightarrow> error + BrokerAuthenticationResult"
  acquireTokenByRefreshToken :: "request \<Rightarrow> error + BrokerAuthenticationResult"
  acquireTokenByIframe :: "request \<Rightarrow> error + BrokerAuthenticationResult"
  acquireTokenPopupAsync :: "request \<Rightarrow> error + BrokerAuthenticationResult"
  super_acquireTokenPopup :: "request \<Rightarrow> error + BrokerAuthenticationResult"
  super_handleRedirectPromise :: "string option \<Rightarrow> error + BrokerAuthenticationResult option"
  parseRequestState :: "string \<Rightarrow> error + string"
  setRequestState :: "string option \<Rightarrow> InteractionType \<Rightarrow> string \<Rightarrow> string"
  JSON_parse_result :: "string \<Rightarrow> error + BrokerAuthenticationResult"
  JSON_stringify_result :: "BrokerAuthenticationResult \<Rightarrow> string"

text \<open>The methods of \<^verbatim>\<open>this.browserStorage\<close>, over a storage of any type.\<close>

record 'st storage_ops =
  getBrokerResponseByOrigin :: "'st \<Rightarrow> string \<Rightarrow> string option \<times> 'st"
  getBrokerResponseByThumbprint :: "'st \<Rightarrow> RequestThumbprint \<Rightarrow> string \<Rightarrow> string option \<times> 'st"
  generateBrokerResponseKey :: "RequestThumbprint \<Rightarrow> string"
  setMemoryCache :: "'st \<Rightarrow> string \<Rightarrow> string \<Rightarrow> 'st"
  updateCacheEntries :: "'st \<Rightarrow> string \<Rightarrow> string option \<Rightarrow> string option \<Rightarrow> 'st"

text \<open>
  The configuration the Broker reads: the package version, the preferred interaction type
  and the redirect parameters of \<^verbatim>\<open>experimental.brokerOptions\<close>, and the redirect URI.
\<close>

record config =
  packageVersion :: string
  preferredInteractionType :: "InteractionType option"
  brokerRedirectParams :: "(string \<times> string) option"
  getRedirectUri :: string
  asyncPopups :: bool

record 'st broker_env =
  validate :: validators
  storage :: "'st storage_ops"
  collab :: collaborators
  config :: config


section \<open>BrokerClientApplication\<close>

text \<open>
  The fields of the Broker that the modelled methods read or write. The promise stored in
  \<^verbatim>\<open>currentBrokerRedirectResponse\<close> is pending or rejected while it is stored:
  \<^verbatim>\<open>handleRedirectPromise\<close> clears the field in the same turn in which the promise is
  fulfilled, and never clears it after a rejection.
\<close>

datatype redirect_promise = Pending | Rejected error

datatype settled = Fulfilled "BrokerAuthenticationResult option" | RejectedWith error

record 'st BrokerClientApplication =
  browserStorage :: 'st
  activeAccount :: "AccountInfo option"
  currentBrokerRedirectResponse :: "redirect_promise option"

text \<open>
  A handler run either completes in one turn, or is suspended at
  \<^verbatim>\<open>await this.currentBrokerRedirectResponse\<close>: \<open>Awaiting evs b k\<close> is a run that
  has caused the events \<open>evs\<close> and left the Broker in state \<open>b\<close> when it was
  suspended. It is resumed by \<open>k\<close> when the promise settles, with the outcome of the
  promise and the state the Broker has at that moment; nothing of the handler runs in between.
\<close>

datatype 'st run =
    Completed "event list \<times> 'st BrokerClientApplication \<times> (error + unit)"
  | Awaiting "event list" "'st BrokerClientApplication"
      "settled \<Rightarrow> ('st BrokerClientApplication, unit) prog"

definition awaitCurrentBrokerRedirectResponse ::
  "('st BrokerClientApplication, unit) prog \<Rightarrow> 'st BrokerClientApplication \<Rightarrow> 'st run" where
  "awaitCurrentBrokerRedirectResponse rest b =
     (case currentBrokerRedirectResponse b of
        None \<Rightarrow> Completed (rest b)
      | Some p \<Rightarrow>
          Awaiting [] b
            (\<lambda>outcome. case outcome of RejectedWith e \<Rightarrow> throw e | Fulfilled r \<Rightarrow> rest))"

text \<open>The whole run: what was done before the suspension, then the continuation.\<close>

definition resume :: "'st run \<Rightarrow> settled \<Rightarrow> ('st BrokerClientApplication, unit) prog" where
  "resume r outcome b =
     (case r of
        Completed out \<Rightarrow> out
      | Awaiting evs b0 k \<Rightarrow> (case k outcome b of (evs', b', out) \<Rightarrow> (evs @ evs', b', out)))"

subsection \<open>Storage and account access\<close>

definition getBrokerResponseByOriginP ::
  "'st broker_env \<Rightarrow> string \<Rightarrow> ('st BrokerClientApplication, string option) prog" where
  "getBrokerResponseByOriginP env org =
     (\<lambda>b. case getBrokerResponseByOrigin (storage env) (browserStorage b) org of
             (r, st') \<Rightarrow> ([GetBrokerResponseByOrigin org], b\<lparr>browserStorage := st'\<rparr>, Inr r))"

definition getBrokerResponseByThumbprintP ::
  "'st broker_env \<Rightarrow> RequestThumbprint \<Rightarrow> string
     \<Rightarrow> ('st BrokerClientApplication, string option) prog" where
  "getBrokerResponseByThumbprintP env t org =
     (\<lambda>b. case getBrokerResponseByThumbprint (storage env) (browserStorage b) t org of
             (r, st') \<Rightarrow> ([GetBrokerResponseByThumbprint t org], b\<lparr>browserStorage := st'\<rparr>, Inr r))"

definition setMemoryCacheP ::
  "'st broker_env \<Rightarrow> string \<Rightarrow> string \<Rightarrow> ('st BrokerClientApplication, unit) prog" where
  "setMemoryCacheP env k v =
     (\<lambda>b. ([SetMemoryCache k v],
            b\<lparr>browserStorage := setMemoryCache (storage env) (browserStorage b) k v\<rparr>, Inr ()))"

definition updateCacheEntriesP ::
  "'st broker_env \<Rightarrow> string \<Rightarrow> string option \<Rightarrow> string option
     \<Rightarrow> ('st BrokerClientApplication, unit) prog" where
  "updateCacheEntriesP env st n a =
     (\<lambda>b. ([UpdateCacheEntries st n a],
            b\<lparr>browserStorage := updateCacheEntries (storage env) (browserStorage b) st n a\<rparr>,
            Inr ()))"

text \<open>
  \<^verbatim>\<open>setActiveAccount\<close> and \<^verbatim>\<open>getActiveAccount\<close> are inherited from
  \<^verbatim>\<open>ClientApplication\<close>: the active account is kept in a field, written by the one and
  read by the other.
\<close>

definition setActiveAccount ::
  "AccountInfo option \<Rightarrow> ('st BrokerClientApplication, unit) prog" where
  "setActiveAccount a = (\<lambda>b. ([SetActiveAccount a], b\<lparr>activeAccount := a\<rparr>, Inr ()))"

definition getActiveAccount :: "('st BrokerClientApplication, AccountInfo option) prog" where
  "getActiveAccount = (\<lambda>b. ([], b, Inr (activeAccount b)))"

subsection \<open>handleRedirectPromise\<close>

text \<open>
  \<^verbatim>\<open>waitForBrokeredResponse\<close>, from the point where the promise of
  \<^verbatim>\<open>super.handleRedirectPromise\<close> has settled with \<open>brokerResponse\<close>.
\<close>

definition waitForBrokeredResponse ::
  "'st broker_env \<Rightarrow> error + BrokerAuthenticationResult option
     \<Rightarrow> ('st BrokerClientApplication, BrokerAuthenticationResult option) prog" where
  "waitForBrokeredResponse env brokerResponse =
     (case brokerResponse of
        Inl e \<Rightarrow> throw e
      | Inr None \<Rightarrow> ret None
      | Inr (Some cachedResponse) \<Rightarrow>
          (if tokensToCache cachedResponse = None then ret (Some cachedResponse)
           else seqP (setMemoryCacheP env
                        (generateBrokerResponseKey (storage env) (responseThumbprint cachedResponse))
                        (JSON_stringify_result (collab env) cachedResponse))
                  (seqP (setActiveAccount (res_account cachedResponse)) (ret None))))"

text \<open>
  \<^verbatim>\<open>handleRedirectPromise\<close> in its two turns: up to its \<^verbatim>\<open>await\<close>, where the promise
  is stored, and from the moment the promise settles.
\<close>

definition handleRedirectPromise_begin ::
  "string option \<Rightarrow> ('st BrokerClientApplication, unit) prog" where
  "handleRedirectPromise_begin hash =
     (\<lambda>b. ([SuperHandleRedirectPromise hash], b\<lparr>currentBrokerRedirectResponse := Some Pending\<rparr>,
            Inr ()))"

definition handleRedirectPromise_settle ::
  "'st broker_env \<Rightarrow> error + BrokerAuthenticationResult option
     \<Rightarrow> ('st BrokerClientApplication, BrokerAuthenticationResult option) prog" where
  "handleRedirectPromise_settle env brokerResponse =
     (\<lambda>b. case waitForBrokeredResponse env brokerResponse b of
             (evs, b', Inl e) \<Rightarrow>
               (evs, b'\<lparr>currentBrokerRedirectResponse := Some (Rejected e)\<rparr>, Inl e)
           | (evs, b', Inr redirectResponse) \<Rightarrow>
               (evs, b'\<lparr>currentBrokerRedirectResponse := None\<rparr>,
                Inr (case redirectResponse of
                       None \<Rightarrow> None
                     | Some r \<Rightarrow> (if tokensToCache r = None then Some r else None))))"

definition handleRedirectPromise ::
  "'st broker_env \<Rightarrow> string option
     \<Rightarrow> ('st BrokerClientApplication, BrokerAuthenticationResult option) prog" where
  "handleRedirectPromise env hash =
     seqP (handleRedirectPromise_begin hash)
       (handleRedirectPromise_settle env (super_handleRedirectPromise (collab env) hash))"

subsection \<open>The message handlers\<close>

definition handleBrokerHandshake ::
  "'st broker_env \<Rightarrow> MessageEvent \<Rightarrow> ('st BrokerClientApplication, unit) prog" where
  "handleBrokerHandshake env clientMessage =
     (let validMessage = BrokerHandshakeRequest_validate (validate env) clientMessage;
          brokerHandshakeResponse =
            BrokerHandshakeResponseMessage (packageVersion (config env)) []
      in (case source clientMessage of
            None \<Rightarrow> throw TypeError
          | Some w \<Rightarrow> emit (WindowPostMessage w brokerHandshakeResponse (origin clientMessage))))"

definition handleBrokerRedirectResponse_body ::
  "'st broker_env \<Rightarrow> MessageEvent \<Rightarrow> ('st BrokerClientApplication, unit) prog" where
  "handleBrokerRedirectResponse_body env clientMessage =
     bindP (getBrokerResponseByOriginP env (origin clientMessage)) (\<lambda>cachedBrokerResponse.
       (case cachedBrokerResponse of
          None \<Rightarrow>
            seqP (postMessage (port0 clientMessage) (BrokerAuthResponse Redirect None None))
              (closePort (port0 clientMessage))
        | Some cached \<Rightarrow>
            (if isEmpty (Some cached)
             then seqP (postMessage (port0 clientMessage) (BrokerAuthResponse Redirect None None))
                    (closePort (port0 clientMessage))
             else
               bindP (\<lambda>b. ([], b, JSON_parse_result (collab env) cached)) (\<lambda>brokerResponse.
                 seqP (postMessage (port0 clientMessage)
                         (BrokerAuthResponse Redirect (Some brokerResponse) None))
                   (closePort (port0 clientMessage))))))"

definition handleBrokerRedirectResponse ::
  "'st broker_env \<Rightarrow> MessageEvent \<Rightarrow> 'st BrokerClientApplication \<Rightarrow> 'st run" where
  "handleBrokerRedirectResponse env clientMessage b =
     (case BrokerHandleRedirectRequest_validate (validate env) clientMessage of
        None \<Rightarrow> Completed (ret () b)
      | Some validMessage \<Rightarrow>
          awaitCurrentBrokerRedirectResponse (handleBrokerRedirectResponse_body env clientMessage) b)"


text \<open>
  \<^verbatim>\<open>initializeBrokeredRequest\<close>: the request with the Broker's state, after the state,
  nonce and authority are written to the temporary cache.
\<close>

definition initializeBrokeredRequest ::
  "'st broker_env \<Rightarrow> request \<Rightarrow> InteractionType \<Rightarrow> string
     \<Rightarrow> ('st BrokerClientApplication, request) prog" where
  "initializeBrokeredRequest env embeddedRequest interactionType' messageOrigin =
     bindP
       (case state embeddedRequest of
          None \<Rightarrow> ret None
        | Some st \<Rightarrow>
            (if isEmpty (Some st) then ret None
             else (case parseRequestState (collab env) st of
                     Inl e \<Rightarrow> throw e
                   | Inr userRequestState \<Rightarrow> ret (Some userRequestState))))
       (\<lambda>embeddedState.
          (let brokerState = setRequestState (collab env) embeddedState interactionType' messageOrigin
           in seqP (updateCacheEntriesP env brokerState (nonce embeddedRequest)
                      (authority embeddedRequest))
                (ret (embeddedRequest\<lparr>state := Some brokerState\<rparr>))))"

definition brokeredRedirectRequest ::
  "'st broker_env \<Rightarrow> BrokerAuthRequest \<Rightarrow> port option
     \<Rightarrow> ('st BrokerClientApplication, unit) prog" where
  "brokeredRedirectRequest env validMessage clientPort =
     tryCatch
       (seqP (postMessage clientPort BrokerRedirectResponse)
          (seqP (closePort clientPort)
             (let redirectRequest = (request validMessage)
                    \<lparr>redirectUri := Some (embeddedAppOrigin validMessage),
                     embeddedAppClientId := Some (embeddedClientId validMessage),
                     brokerRedirectUri := Some (getRedirectUri (config env))\<rparr>
              in bindP (initializeBrokeredRequest env redirectRequest Redirect
                          (embeddedAppOrigin validMessage))
                   (\<lambda>validatedBrokerRequest.
                      (case brokerRedirectParams (config env) of
                         None \<Rightarrow> throw TypeError
                       | Some params \<Rightarrow> emit (AcquireTokenRedirectAsync validatedBrokerRequest))))))
       (\<lambda>err. seqP (postMessage clientPort (BrokerAuthResponse Popup None (Some err)))
                 (closePort clientPort))"

definition brokeredPopupRequest ::
  "'st broker_env \<Rightarrow> BrokerAuthRequest \<Rightarrow> port option
     \<Rightarrow> ('st BrokerClientApplication, unit) prog" where
  "brokeredPopupRequest env validMessage clientPort =
     tryCatch
       (let popupRequest = (request validMessage)
              \<lparr>redirectUri := Some (embeddedAppOrigin validMessage),
               embeddedAppClientId := Some (embeddedClientId validMessage),
               brokerRedirectUri := Some (getRedirectUri (config env))\<rparr>
        in bindP (initializeBrokeredRequest env popupRequest Popup (embeddedAppOrigin validMessage))
             (\<lambda>validatedBrokerRequest.
                bindP (call (AcquireTokenPopupAsync validatedBrokerRequest)
                         (acquireTokenPopupAsync (collab env) validatedBrokerRequest))
                  (\<lambda>response.
                     seqP (postMessage clientPort (BrokerAuthResponse Popup (Some response) None))
                       (closePort clientPort))))
       (\<lambda>err. seqP (postMessage clientPort (BrokerAuthResponse Popup None (Some err)))
                 (closePort clientPort))"

definition brokeredSsoSilentRequest ::
  "'st broker_env \<Rightarrow> BrokerAuthRequest \<Rightarrow> port option
     \<Rightarrow> ('st BrokerClientApplication, unit) prog" where
  "brokeredSsoSilentRequest env validMessage clientPort =
     tryCatch
       (let silentRequest = (request validMessage)
              \<lparr>redirectUri := Some (embeddedAppOrigin validMessage),
               embeddedAppClientId := Some (embeddedClientId validMessage),
               brokerRedirectUri := Some (getRedirectUri (config env))\<rparr>
        in bindP (initializeBrokeredRequest env silentRequest Silent
                    (embeddedAppOrigin validMessage))
             (\<lambda>brokeredSilentRequest.
                bindP (call (AcquireTokenByIframe brokeredSilentRequest)
                         (acquireTokenByIframe (collab env) brokeredSilentRequest))
                  (\<lambda>response.
                     seqP (postMessage clientPort (BrokerAuthResponse Popup (Some response) None))
                       (closePort clientPort))))
       (\<lambda>err. seqP (postMessage clientPort (BrokerAuthResponse Silent None (Some err)))
                 (closePort clientPort))"

definition brokeredSilentRequest ::
  "'st broker_env \<Rightarrow> BrokerAuthRequest \<Rightarrow> port option \<Rightarrow> AccountInfo option
     \<Rightarrow> ('st BrokerClientApplication, unit) prog" where
  "brokeredSilentRequest env validMessage clientPort account' =
     tryCatch
       (let silentRequest0 = (request validMessage)
              \<lparr>embeddedAppClientId := Some (embeddedClientId validMessage),
               embeddedAppRedirectUri := Some (embeddedAppOrigin validMessage)\<rparr>;
            silentRequest =
              (if account silentRequest0 = None then silentRequest0\<lparr>account := account'\<rparr>
               else silentRequest0)
        in bindP (call (AcquireTokenByRefreshToken silentRequest)
                    (acquireTokenByRefreshToken (collab env) silentRequest))
             (\<lambda>response.
                (if tokensToCache response \<noteq> None
                 then seqP (postMessage clientPort (BrokerAuthResponse Silent (Some response) None))
                        (closePort clientPort)
                 else seqP (postMessage clientPort
                              (BrokerAuthResponse Silent None (Some NoTokensToCacheError)))
                        (closePort clientPort))))
       (\<lambda>err. seqP (postMessage clientPort (BrokerAuthResponse Silent None (Some err)))
                 (closePort clientPort))"

definition getInteractionType :: "config \<Rightarrow> InteractionType \<Rightarrow> InteractionType" where
  "getInteractionType cfg messageInteractionType =
     (case preferredInteractionType cfg of
        Some preferred \<Rightarrow> preferred
      | None \<Rightarrow> messageInteractionType)"

definition interactiveBrokerRequest ::
  "'st broker_env \<Rightarrow> InteractionType \<Rightarrow> BrokerAuthRequest \<Rightarrow> MessageEvent
     \<Rightarrow> ('st BrokerClientApplication, unit) prog" where
  "interactiveBrokerRequest env interactionType' validMessage clientMessage =
     (case interactionType' of
        Redirect \<Rightarrow> brokeredRedirectRequest env validMessage (port0 clientMessage)
      | Popup \<Rightarrow> brokeredPopupRequest env validMessage (port0 clientMessage)
      | Silent \<Rightarrow> ret ()
      | None_interaction \<Rightarrow> ret ())"

text \<open>The thumbprint that \<^verbatim>\<open>handleBrokerAuthRequest\<close> builds to probe the cache.\<close>

definition reqThumbprint :: "BrokerAuthRequest \<Rightarrow> RequestThumbprint" where
  "reqThumbprint validMessage =
     \<lparr>tp_authority = authority (request validMessage),
      tp_clientId = embeddedClientId validMessage,
      tp_scopes = scopes (request validMessage)\<rparr>"

text \<open>
  \<^verbatim>\<open>handleBrokerAuthRequest\<close> after the cache probe found nothing: the brokered silent
  renewal when an account is active or given, otherwise the branch on the interaction type.
\<close>

definition handleBrokerAuthRequest_acquire ::
  "'st broker_env \<Rightarrow> MessageEvent \<Rightarrow> BrokerAuthRequest
     \<Rightarrow> ('st BrokerClientApplication, unit) prog" where
  "handleBrokerAuthRequest_acquire env clientMessage validMessage =
     bindP getActiveAccount (\<lambda>currentAccount.
       (if currentAccount \<noteq> None \<or> account (request validMessage) \<noteq> None
        then brokeredSilentRequest env validMessage (port0 clientMessage) currentAccount
        else
          (case interactionType validMessage of
             Silent \<Rightarrow> brokeredSsoSilentRequest env validMessage (port0 clientMessage)
           | _ \<Rightarrow>
               interactiveBrokerRequest env
                 (getInteractionType (config env) (interactionType validMessage))
                 validMessage clientMessage)))"

text \<open>\<^verbatim>\<open>handleBrokerAuthRequest\<close> from the cache probe on.\<close>

definition handleBrokerAuthRequest_body ::
  "'st broker_env \<Rightarrow> MessageEvent \<Rightarrow> BrokerAuthRequest
     \<Rightarrow> ('st BrokerClientApplication, unit) prog" where
  "handleBrokerAuthRequest_body env clientMessage validMessage =
     bindP (getBrokerResponseByThumbprintP env (reqThumbprint validMessage)
              (embeddedAppOrigin validMessage))
       (\<lambda>cachedBrokerResponse.
          (case cachedBrokerResponse of
             None \<Rightarrow> handleBrokerAuthRequest_acquire env clientMessage validMessage
           | Some cached \<Rightarrow>
               (if isEmpty (Some cached)
                then handleBrokerAuthRequest_acquire env clientMessage validMessage
                else
                  bindP (\<lambda>b. ([], b, JSON_parse_result (collab env) cached)) (\<lambda>brokerResponse.
                    seqP (postMessage (port0 clientMessage)
                            (BrokerAuthResponse Redirect (Some brokerResponse) None))
                      (closePort (port0 clientMessage))))))"

definition handleBrokerAuthRequest ::
  "'st broker_env \<Rightarrow> MessageEvent \<Rightarrow> 'st BrokerClientApplication \<Rightarrow> 'st run" where
  "handleBrokerAuthRequest env clientMessage b =
     (case BrokerAuthRequest_validate (validate env) clientMessage of
        None \<Rightarrow> Completed (ret () b)
      | Some validMessage \<Rightarrow>
          awaitCurrentBrokerRedirectResponse
            (handleBrokerAuthRequest_body env clientMessage validMessage) b)"

definition handleBrokerMessage ::
  "'st broker_env \<Rightarrow> MessageEvent \<Rightarrow> 'st BrokerClientApplication \<Rightarrow> 'st run" where
  "handleBrokerMessage env message b =
     (case BrokerMessage_validateMessage (validate env) message of
        None \<Rightarrow> Completed (ret () b)
      | Some clientMessage \<Rightarrow>
          (case data clientMessage of
             None \<Rightarrow> Completed (throw TypeError b)
           | Some d \<Rightarrow>
               (case messageType d of
                  Some HANDSHAKE_REQUEST \<Rightarrow> Completed (handleBrokerHandshake env clientMessage b)
                | Some HANDLE_REDIRECT_REQUEST \<Rightarrow> handleBrokerRedirectResponse env clientMessage b
                | Some AUTH_REQUEST \<Rightarrow> handleBrokerAuthRequest env clientMessage b
                | _ \<Rightarrow> Completed (ret () b))))"


section \<open>PublicClientApplication and ExperimentalClientApplication\<close>

record EmbeddedClientApplication =
  brokerConnectionEstablished :: bool

text \<open>
  The fields both classes read: the embedded application and the Broker that
  \<^verbatim>\<open>initializeBrokering\<close> may have set, and the active account. \<open>broker\<close> says
  whether \<^verbatim>\<open>this.broker\<close> is set.
\<close>

record application =
  embeddedApp :: "EmbeddedClientApplication option"
  broker :: bool
  app_activeAccount :: "AccountInfo option"

text \<open>
  The methods of the embedded application and of the Broker object that the two classes call,
  each given by the outcome of its promise.
\<close>

record brokering =
  sendSilentRefreshRequest :: "request \<Rightarrow> error + BrokerAuthenticationResult"
  sendPopupRequest :: "request \<Rightarrow> error + BrokerAuthenticationResult"
  sendHandleRedirectRequest :: "error + BrokerAuthenticationResult option"
  broker_handleRedirectPromise :: "string option \<Rightarrow> error + BrokerAuthenticationResult option"

record app_env =
  inherited :: collaborators
  brokered :: brokering
  app_config :: config

text \<open>\<^verbatim>\<open>this.embeddedApp && this.embeddedApp.brokerConnectionEstablished\<close>\<close>

definition connectionEstablished :: "application \<Rightarrow> bool" where
  "connectionEstablished app =
     (case embeddedApp app of None \<Rightarrow> False | Some e \<Rightarrow> brokerConnectionEstablished e)"

definition preflight :: "app_env \<Rightarrow> InteractionType \<Rightarrow> (application, unit) prog" where
  "preflight env t =
     (case preflightBrowserEnvironmentCheck (inherited env) t of
        Some e \<Rightarrow> throw e
      | None \<Rightarrow> ret ())"

text \<open>
  The \<^verbatim>\<open>try\<close> block of \<^verbatim>\<open>acquireTokenSilent\<close>: the silent-flow client is created and
  asked for a cached token.
\<close>

definition cachedTokenAttempt ::
  "app_env \<Rightarrow> request \<Rightarrow> (application, BrokerAuthenticationResult) prog" where
  "cachedTokenAttempt env silentRequest =
     bindP (call (CreateSilentFlowClient (authority silentRequest))
              (case createSilentFlowClient (inherited env) (authority silentRequest) of
                 Some e \<Rightarrow> Inl e
               | None \<Rightarrow> Inr ()))
       (\<lambda>silentAuthClient.
          bindP (call (AcquireCachedToken silentRequest)
                   (acquireCachedToken (inherited env) silentRequest))
            (\<lambda>cachedToken.
               seqP (emit (EmitEvent ACQUIRE_TOKEN_SUCCESS None)) (ret cachedToken)))"

text \<open>The inner \<^verbatim>\<open>try\<close> block: one refresh-token exchange, and its \<^verbatim>\<open>catch\<close>.\<close>

definition tokenRenewal ::
  "app_env \<Rightarrow> request \<Rightarrow> (application, BrokerAuthenticationResult) prog" where
  "tokenRenewal env r =
     tryCatch
       (bindP (call (AcquireTokenByRefreshToken r) (acquireTokenByRefreshToken (inherited env) r))
          (\<lambda>tokenRenewalResult.
             seqP (emit (EmitEvent ACQUIRE_TOKEN_SUCCESS None)) (ret tokenRenewalResult)))
       (\<lambda>tokenRenewalError.
          seqP (emit (EmitEvent ACQUIRE_TOKEN_FAILURE (Some tokenRenewalError)))
            (throw tokenRenewalError))"

definition PublicClientApplication_acquireTokenSilent ::
  "app_env \<Rightarrow> request \<Rightarrow> (application, BrokerAuthenticationResult) prog" where
  "PublicClientApplication_acquireTokenSilent env r =
     seqP (preflight env Silent)
       (let silentRequest = initializeBaseRequest (inherited env) r
        in seqP (emit (EmitEvent ACQUIRE_TOKEN_START None))
             (\<lambda>app.
                (if connectionEstablished app
                 then call (SendSilentRefreshRequest r)
                        (sendSilentRefreshRequest (brokered env) r) app
                 else tryCatch (cachedTokenAttempt env silentRequest)
                        (\<lambda>e. tokenRenewal env r) app)))"

definition ExperimentalClientApplication_acquireTokenSilent ::
  "app_env \<Rightarrow> request \<Rightarrow> (application, BrokerAuthenticationResult) prog" where
  "ExperimentalClientApplication_acquireTokenSilent env r =
     seqP (preflight env Silent)
       (\<lambda>app.
          (case (case account r of Some a \<Rightarrow> Some a | None \<Rightarrow> app_activeAccount app) of
             None \<Rightarrow> throw NoAccountError app
           | Some accountObj \<Rightarrow>
               (let silentRequest = (initializeBaseRequest (inherited env) r)
                      \<lparr>account := Some accountObj, forceRefresh := (forceRefresh r \<or> False)\<rparr>
                in seqP (emit (EmitEvent ACQUIRE_TOKEN_START None))
                     (tryCatch (cachedTokenAttempt env silentRequest)
                        (\<lambda>e app'.
                           (if connectionEstablished app'
                            then call (SendSilentRefreshRequest r)
                                   (sendSilentRefreshRequest (brokered env) r) app'
                            else tokenRenewal env silentRequest app'))) app)))"

definition PublicClientApplication_acquireTokenPopup ::
  "app_env \<Rightarrow> request \<Rightarrow> (application, BrokerAuthenticationResult) prog" where
  "PublicClientApplication_acquireTokenPopup env r =
     (\<lambda>app.
        (if connectionEstablished app
         then call (SendPopupRequest r) (sendPopupRequest (brokered env) r) app
         else call (SuperAcquireTokenPopup r) (super_acquireTokenPopup (inherited env) r) app))"

definition ExperimentalClientApplication_acquireTokenPopup ::
  "app_env \<Rightarrow> request \<Rightarrow> (application, BrokerAuthenticationResult) prog" where
  "ExperimentalClientApplication_acquireTokenPopup env r =
     seqP (preflight env Popup)
       (bindP (\<lambda>app. ([], app, preflightInteractiveRequest (inherited env) r Popup))
          (\<lambda>validRequest app.
             (if connectionEstablished app
              then call (SendPopupRequest validRequest)
                     (sendPopupRequest (brokered env) validRequest) app
              else
                seqP (emit (UpdateCacheEntries (case state validRequest of None \<Rightarrow> [] | Some st \<Rightarrow> st)
                              (nonce validRequest) (authority validRequest)))
                  (if asyncPopups (app_config env)
                   then call (AcquireTokenPopupAsync validRequest)
                          (acquireTokenPopupAsync (inherited env) validRequest)
                   else seqP (emit OpenSizedPopup)
                          (call (AcquireTokenPopupAsync validRequest)
                             (acquireTokenPopupAsync (inherited env) validRequest))) app)))"

text \<open>
  \<^verbatim>\<open>handleRedirectPromise\<close>, the same in both classes but for the hash, which
  \<^verbatim>\<open>PublicClientApplication\<close> does not take (\<open>hash = None\<close>).
\<close>

definition application_handleRedirectPromise ::
  "app_env \<Rightarrow> string option \<Rightarrow> (application, BrokerAuthenticationResult option) prog" where
  "application_handleRedirectPromise env hash =
     (\<lambda>app.
        (if broker app
         then call (BrokerHandleRedirectPromise hash)
                (broker_handleRedirectPromise (brokered env) hash) app
         else if connectionEstablished app
         then call SendHandleRedirectRequest (sendHandleRedirectRequest (brokered env)) app
         else call (SuperHandleRedirectPromise hash)
                (super_handleRedirectPromise (inherited env) hash) app))"


section \<open>The Response Cache of the specification\<close>

text \<open>
  Modelled from the spec: the comparison of request thumbprints and the Response Cache
  (\<^verbatim>\<open>generateBrokerResponseKey\<close>, \<^verbatim>\<open>getBrokerResponseByThumbprint\<close> and
  \<^verbatim>\<open>getBrokerResponseByOrigin\<close> of the browser storage are not among the modelled files).
  Two thumbprints are equal iff their authority strings and client ids match exactly and their
  scope lists are equal as sets. \<open>put\<close> stores a result under a thumbprint and an origin;
  \<open>getByThumbprint\<close> and \<open>getByOrigin\<close> return the stored result, or nothing, and remove
  the entry they serve.
\<close>

definition thumbprint_eq :: "RequestThumbprint \<Rightarrow> RequestThumbprint \<Rightarrow> bool" where
  "thumbprint_eq t1 t2 =
     (tp_authority t1 = tp_authority t2 \<and> tp_clientId t1 = tp_clientId t2
      \<and> set (tp_scopes t1) = set (tp_scopes t2))"

record cached_response =
  cr_thumbprint :: RequestThumbprint
  cr_origin :: string
  cr_result :: string

type_synonym response_cache = "cached_response list"

definition cache_key_matches :: "RequestThumbprint \<Rightarrow> string \<Rightarrow> cached_response \<Rightarrow> bool" where
  "cache_key_matches t org e = (thumbprint_eq (cr_thumbprint e) t \<and> cr_origin e = org)"

definition put :: "RequestThumbprint \<Rightarrow> string \<Rightarrow> string \<Rightarrow> response_cache \<Rightarrow> response_cache" where
  "put t org r c =
     \<lparr>cr_thumbprint = t, cr_origin = org, cr_result = r\<rparr>
       # filter (\<lambda>e. \<not> cache_key_matches t org e) c"

definition getByThumbprint ::
  "RequestThumbprint \<Rightarrow> string \<Rightarrow> response_cache \<Rightarrow> string option \<times> response_cache" where
  "getByThumbprint t org c =
     (case find (cache_key_matches t org) c of
        None \<Rightarrow> (None, c)
      | Some e \<Rightarrow> (Some (cr_result e), remove1 e c))"

definition getByOrigin :: "string \<Rightarrow> response_cache \<Rightarrow> string option \<times> response_cache" where
  "getByOrigin org c =
     (case find (\<lambda>e. cr_origin e = org) c of
        None \<Rightarrow> (None, c)
      | Some e \<Rightarrow> (Some (cr_result e), remove1 e c))"

section \<open>Concrete collaborators\<close>

text \<open>
  Instances of the parameters, for runs on concrete inputs. The storage is a list of
  key-value pairs; a thumbprint's key joins its authority, client id and scopes; a lookup
  removes the entry it returns.
\<close>

definition exampleKey :: "RequestThumbprint \<Rightarrow> string" where
  "exampleKey t =
     (case tp_authority t of None \<Rightarrow> [] | Some a \<Rightarrow> a) @ ''|'' @ tp_clientId t @ ''|''
       @ js_join CHR '' '' (tp_scopes t)"

definition exampleStorage :: "(string \<times> string) list storage_ops" where
  "exampleStorage =
     \<lparr>getBrokerResponseByOrigin = (\<lambda>st org. (map_of st org, filter (\<lambda>kv. fst kv \<noteq> org) st)),
      getBrokerResponseByThumbprint =
        (\<lambda>st t org. (map_of st (exampleKey t), filter (\<lambda>kv. fst kv \<noteq> exampleKey t) st)),
      generateBrokerResponseKey = exampleKey,
      setMemoryCache = (\<lambda>st k v. (k, v) # filter (\<lambda>kv. fst kv \<noteq> k) st),
      updateCacheEntries = (\<lambda>st s n a. st)\<rparr>"

definition exampleThumbprint :: RequestThumbprint where
  "exampleThumbprint =
     \<lparr>tp_authority = Some ''https://login.example/common/'', tp_clientId = ''embedded-app'',
      tp_scopes = [''User.Read'']\<rparr>"

definition exampleResult :: BrokerAuthenticationResult where
  "exampleResult =
     \<lparr>res_account = Some ''alice'', accessToken = ''token-1'',
      tokensToCache = Some ''cache-record'', responseThumbprint = exampleThumbprint\<rparr>"

definition exampleRequest :: request where
  "exampleRequest =
     \<lparr>scopes = [''User.Read''], authority = Some ''https://login.example/common/'',
      account = None, forceRefresh = False, state = None, nonce = None, redirectUri = None,
      embeddedAppClientId = None, embeddedAppRedirectUri = None, brokerRedirectUri = None\<rparr>"

text \<open>
  Collaborators that find no cached token, need interaction for a silent renewal and
  complete a popup or an iframe request with \<open>exampleResult\<close>.
\<close>

definition exampleCollaborators :: collaborators where
  "exampleCollaborators =
     \<lparr>preflightBrowserEnvironmentCheck = (\<lambda>t. None),
      preflightInteractiveRequest = (\<lambda>r t. Inr r),
      initializeBaseRequest = (\<lambda>r. r),
      createSilentFlowClient = (\<lambda>a. None),
      acquireCachedToken = (\<lambda>r. Inl (ServerError ''token_refresh_required'')),
      acquireTokenByRefreshToken = (\<lambda>r. Inl InteractionRequiredAuthError),
      acquireTokenByIframe = (\<lambda>r. Inr exampleResult),
      acquireTokenPopupAsync = (\<lambda>r. Inr exampleResult),
      super_acquireTokenPopup = (\<lambda>r. Inr exampleResult),
      super_handleRedirectPromise = (\<lambda>h. Inr (Some exampleResult)),
      parseRequestState = (\<lambda>s. Inr s),
      setRequestState = (\<lambda>s t org. org),
      JSON_parse_result =
        (\<lambda>s. if s = ''serialized-result'' then Inr exampleResult else Inl SyntaxError),
      JSON_stringify_result = (\<lambda>r. ''serialized-result'')\<rparr>"

text \<open>
  Modelled from the spec: the validators of the message classes
  (\<^verbatim>\<open>BrokerMessage.validateMessage\<close>, \<^verbatim>\<open>BrokerHandshakeRequest.validate\<close>,
  \<^verbatim>\<open>BrokerHandleRedirectRequest.validate\<close> and \<^verbatim>\<open>BrokerAuthRequest.validate\<close> are not
  among the modelled files). A message with a malformed shape, an unknown message type or a
  missing required field yields \<^verbatim>\<open>null\<close>. The envelope needs a payload with a known
  message type; every request needs its own message type and the version; an auth request
  also needs the interaction type, the embedded client id and the request, and takes the
  origin of the embedded application from the event, not from the payload.
\<close>

definition exampleValidators :: validators where
  "exampleValidators =
     \<lparr>envelopeValid =
        (\<lambda>m. case data m of
                None \<Rightarrow> False
              | Some d \<Rightarrow>
                  (case messageType d of
                     None \<Rightarrow> False
                   | Some (UnknownMessageType t) \<Rightarrow> False
                   | Some t \<Rightarrow> True)),
      BrokerHandshakeRequest_validate =
        (\<lambda>m. case data m of
                None \<Rightarrow> None
              | Some d \<Rightarrow>
                  (case (messageType d, data_version d) of
                     (Some HANDSHAKE_REQUEST, Some ver) \<Rightarrow> Some \<lparr>hr_version = ver\<rparr>
                   | _ \<Rightarrow> None)),
      BrokerHandleRedirectRequest_validate =
        (\<lambda>m. case data m of
                None \<Rightarrow> None
              | Some d \<Rightarrow>
                  (case (messageType d, data_version d) of
                     (Some HANDLE_REDIRECT_REQUEST, Some ver) \<Rightarrow> Some ()
                   | _ \<Rightarrow> None)),
      BrokerAuthRequest_validate =
        (\<lambda>m. case data m of
                None \<Rightarrow> None
              | Some d \<Rightarrow>
                  (case (messageType d, data_version d, data_embeddedClientId d,
                         data_interactionType d, data_request d) of
                     (Some AUTH_REQUEST, Some ver, Some c, Some t, Some r) \<Rightarrow>
                       Some \<lparr>interactionType = t, embeddedClientId = c,
                             embeddedAppOrigin = origin m, request = r\<rparr>
                   | _ \<Rightarrow> None))\<rparr>"

definition exampleConfig :: config where
  "exampleConfig =
     \<lparr>packageVersion = ''2.0'', preferredInteractionType = None,
      brokerRedirectParams = Some (''https://broker.example/start'', ''onRedirectNavigate''),
      getRedirectUri = ''https://broker.example/'', asyncPopups = True\<rparr>"

definition exampleEnv :: "(string \<times> string) list broker_env" where
  "exampleEnv =
     \<lparr>validate = exampleValidators, storage = exampleStorage, collab = exampleCollaborators,
      config = exampleConfig\<rparr>"

definition exampleBroker :: "(string \<times> string) list BrokerClientApplication" where
  "exampleBroker =
     \<lparr>browserStorage = [], activeAccount = None, currentBrokerRedirectResponse = None\<rparr>"

definition exampleAuthMessage :: "InteractionType \<Rightarrow> MessageEvent" where
  "exampleAuthMessage t =
     \<lparr>data = Some \<lparr>messageType = Some AUTH_REQUEST, data_version = Some ''2.0'',
                    data_brokerOrigin = None, data_embeddedClientId = Some ''embedded-app'',
                    data_interactionType = Some t, data_request = Some exampleRequest\<rparr>,
      origin = ''https://child.example'', source = Some 1, ports = [7]\<rparr>"

definition exampleBrokering :: brokering where
  "exampleBrokering =
     \<lparr>sendSilentRefreshRequest = (\<lambda>r. Inr exampleResult),
      sendPopupRequest = (\<lambda>r. Inr exampleResult),
      sendHandleRedirectRequest = Inr None,
      broker_handleRedirectPromise = (\<lambda>h. Inr None)\<rparr>"

definition exampleAppEnv :: app_env where
  "exampleAppEnv =
     \<lparr>inherited = exampleCollaborators, brokered = exampleBrokering, app_config = exampleConfig\<rparr>"

definition standaloneApp :: application where
  "standaloneApp = \<lparr>embeddedApp = None, broker = False, app_activeAccount = None\<rparr>"

definition bondedApp :: application where
  "bondedApp =
     \<lparr>embeddedApp = Some \<lparr>brokerConnectionEstablished = True\<rparr>, broker = False,
      app_activeAccount = Some ''alice''\<rparr>"


text \<open>
  A pattern matcher in the place of \<^verbatim>\<open>StringUtils.matchPattern\<close>: the pattern matches the
  whole input, and \<open>*\<close> stands for any run of characters.
\<close>

fun wildcardMatch :: "string \<Rightarrow> string \<Rightarrow> bool" where
  "wildcardMatch [] s = (s = [])"
| "wildcardMatch (p # ps) [] = (p = CHR ''*'' \<and> wildcardMatch ps [])"
| "wildcardMatch (p # ps) (c # cs) =
     (if p = CHR ''*'' then wildcardMatch ps (c # cs) \<or> wildcardMatch (p # ps) cs
      else p = c \<and> wildcardMatch ps cs)"

definition exampleHandshakeResponse :: MessageEvent where
  "exampleHandshakeResponse =
     \<lparr>data = Some \<lparr>messageType = Some HANDSHAKE_RESPONSE, data_version = Some ''2.0'',
                    data_brokerOrigin = Some ''https://evil.example'',
                    data_embeddedClientId = None, data_interactionType = None,
                    data_request = None\<rparr>,
      origin = ''https://login.broker.example'', source = Some 2, ports = []\<rparr>"

text \<open>A handshake request that carries its message type and no version.\<close>

definition bareHandshakeRequest :: MessageEvent where
  "bareHandshakeRequest =
     \<lparr>data = Some \<lparr>messageType = Some HANDSHAKE_REQUEST, data_version = None,
                    data_brokerOrigin = None, data_embeddedClientId = None,
                    data_interactionType = None, data_request = None\<rparr>,
      origin = ''https://other.example'', source = Some 3, ports = []\<rparr>"

definition exampleClientInfo :: ClientInfo where
  "exampleClientInfo =
     \<lparr>priv_uid = Some ''123-b2c_1_signin'', priv_utid = Some ''456-test-utid''\<rparr>"

section \<open>Reading a trace\<close>

text \<open>The events on one port, in order: the messages posted on it and its closing.\<close>

fun on_port :: "port \<Rightarrow> event \<Rightarrow> bool" where
  "on_port p (PostMessage q m) = (q = p)"
| "on_port p (ClosePort q) = (q = p)"
| "on_port p _ = False"

definition port_events :: "port \<Rightarrow> event list \<Rightarrow> event list" where
  "port_events p evs = filter (on_port p) evs"

text \<open>Exactly one message was posted on the port, and the port was closed after it.\<close>

definition respondedOnce :: "port \<Rightarrow> event list \<Rightarrow> bool" where
  "respondedOnce p evs =
     (case port_events p evs of [PostMessage q m, ClosePort q'] \<Rightarrow> True | _ \<Rightarrow> False)"

text \<open>Nothing was posted on the port and it was not closed.\<close>

definition leftOpen :: "port \<Rightarrow> event list \<Rightarrow> bool" where
  "leftOpen p evs = (port_events p evs = [])"

text \<open>
  The kinds of events of an acquisition: a notification of the application's listeners, a
  step of the local cached-token lookup, a refresh-token exchange, the start of an
  interactive flow, a request forwarded to the Broker, and any acquisition work done locally.
\<close>

fun notification :: "event \<Rightarrow> bool" where
  "notification (EmitEvent t e) = True"
| "notification _ = False"

fun cache_lookup :: "event \<Rightarrow> bool" where
  "cache_lookup (CreateSilentFlowClient a) = True"
| "cache_lookup (AcquireCachedToken r) = True"
| "cache_lookup _ = False"

fun renewal_attempt :: "event \<Rightarrow> bool" where
  "renewal_attempt (AcquireTokenByRefreshToken r) = True"
| "renewal_attempt _ = False"

fun interactive_flow :: "event \<Rightarrow> bool" where
  "interactive_flow (AcquireTokenPopupAsync r) = True"
| "interactive_flow (AcquireTokenRedirectAsync r) = True"
| "interactive_flow (SuperAcquireTokenPopup r) = True"
| "interactive_flow (SendPopupRequest r) = True"
| "interactive_flow OpenSizedPopup = True"
| "interactive_flow _ = False"

fun forwarded :: "event \<Rightarrow> bool" where
  "forwarded (SendSilentRefreshRequest r) = True"
| "forwarded (SendPopupRequest r) = True"
| "forwarded SendHandleRedirectRequest = True"
| "forwarded _ = False"

fun local_acquisition :: "event \<Rightarrow> bool" where
  "local_acquisition (CreateSilentFlowClient a) = True"
| "local_acquisition (AcquireCachedToken r) = True"
| "local_acquisition (AcquireTokenByRefreshToken r) = True"
| "local_acquisition (AcquireTokenByIframe r) = True"
| "local_acquisition (AcquireTokenPopupAsync r) = True"
| "local_acquisition (AcquireTokenRedirectAsync r) = True"
| "local_acquisition (SuperAcquireTokenPopup r) = True"
| "local_acquisition (SuperHandleRedirectPromise h) = True"
| "local_acquisition (BrokerHandleRedirectPromise h) = True"
| "local_acquisition (UpdateCacheEntries s n a) = True"
| "local_acquisition OpenSizedPopup = True"
| "local_acquisition _ = False"

text \<open>The events of a trace that are not notifications.\<close>

definition steps :: "event list \<Rightarrow> event list" where
  "steps evs = filter (\<lambda>e. \<not> notification e) evs"

text \<open>
  The call was forwarded to the Broker instead of being run locally: \<open>e\<close> is the one
  request that the trace forwards, and the trace has no local cache lookup and no local
  acquisition, neither before the request is forwarded nor after.
\<close>

definition forwardedInstead :: "event \<Rightarrow> event list \<Rightarrow> bool" where
  "forwardedInstead e evs =
     (forwarded e \<and> filter forwarded evs = [e] \<and> \<not> list_ex local_acquisition evs)"

text \<open>
  The call was forwarded to the Broker after a local cached-token lookup: the first step is
  the lookup, the lookup is the only local work of the trace, and the trace ends with the one
  request it forwards, \<open>e\<close>.
\<close>

definition forwardedAfterLookup :: "event \<Rightarrow> event list \<Rightarrow> bool" where
  "forwardedAfterLookup e evs =
     (forwarded e \<and> dropWhile (\<lambda>x. \<not> forwarded x) evs = [e]
      \<and> (case steps evs of [] \<Rightarrow> False | x # rest \<Rightarrow> cache_lookup x)
      \<and> filter local_acquisition evs = filter cache_lookup evs)"

text \<open>
  The call was answered by the local cached-token lookup: nothing is forwarded, the first
  step is the lookup, and the lookup is the only local work of the trace.
\<close>

definition answeredLocally :: "event list \<Rightarrow> bool" where
  "answeredLocally evs =
     (\<not> list_ex forwarded evs
      \<and> (case steps evs of [] \<Rightarrow> False | x # rest \<Rightarrow> cache_lookup x)
      \<and> filter local_acquisition evs = filter cache_lookup evs)"

text \<open>The local cached-token lookup fails: the client cannot be created, or finds no token.\<close>

definition cachedLookupFails :: "app_env \<Rightarrow> request \<Rightarrow> bool" where
  "cachedLookupFails env silentRequest =
     (createSilentFlowClient (inherited env) (authority silentRequest) \<noteq> None
      \<or> isl (acquireCachedToken (inherited env) silentRequest))"

text \<open>
  The branch that \<^verbatim>\<open>handleBrokerAuthRequest\<close> takes in a state: the probe of the cache
  finds nothing, no account is active or given, and the request is not a silent one, so the
  request goes to \<^verbatim>\<open>interactiveBrokerRequest\<close> with the resolved interaction type.
\<close>

definition cacheMiss :: "'st broker_env \<Rightarrow> BrokerAuthRequest \<Rightarrow> 'st BrokerClientApplication \<Rightarrow> bool" where
  "cacheMiss env validMessage b =
     isEmpty (fst (getBrokerResponseByThumbprint (storage env) (browserStorage b)
                     (reqThumbprint validMessage) (embeddedAppOrigin validMessage)))"

definition interactiveRoute ::
  "'st broker_env \<Rightarrow> BrokerAuthRequest \<Rightarrow> 'st BrokerClientApplication \<Rightarrow> bool" where
  "interactiveRoute env validMessage b =
     (cacheMiss env validMessage b \<and> activeAccount b = None
      \<and> account (request validMessage) = None \<and> interactionType validMessage \<noteq> Silent)"

definition resolvedInteractionType :: "'st broker_env \<Rightarrow> BrokerAuthRequest \<Rightarrow> InteractionType" where
  "resolvedInteractionType env validMessage =
     getInteractionType (config env) (interactionType validMessage)"

text \<open>Nothing throws between the redirect response and the start of the redirect.\<close>

definition redirectStarts :: "'st broker_env \<Rightarrow> BrokerAuthRequest \<Rightarrow> bool" where
  "redirectStarts env validMessage =
     (brokerRedirectParams (config env) \<noteq> None
      \<and> (case state (request validMessage) of
            None \<Rightarrow> True
          | Some st \<Rightarrow> st = [] \<or> \<not> isl (parseRequestState (collab env) st)))"

text \<open>
  What the fallback chain of \<^verbatim>\<open>acquireTokenSilent\<close> asks of a run with trace \<open>evs\<close> and
  outcome \<open>out\<close>: the first step is the local cached-token lookup; no interactive flow is
  started; when the lookup fails there is exactly one refresh-token exchange, for
  \<open>renewalRequest\<close>, and the outcome of the run is the outcome of that exchange, its error
  included; when the lookup succeeds there is no exchange and the outcome is the cached token.
\<close>

definition fallbackChain ::
  "app_env \<Rightarrow> request \<Rightarrow> request \<Rightarrow> event list \<Rightarrow> error + BrokerAuthenticationResult \<Rightarrow> bool" where
  "fallbackChain env silentRequest renewalRequest evs out =
     ((case steps evs of [] \<Rightarrow> False | e # rest \<Rightarrow> cache_lookup e)
      \<and> \<not> list_ex interactive_flow evs
      \<and> (if cachedLookupFails env silentRequest
          then length (filter renewal_attempt evs) = 1
               \<and> out = acquireTokenByRefreshToken (inherited env) renewalRequest
          else filter renewal_attempt evs = []
               \<and> out = acquireCachedToken (inherited env) silentRequest))"

section \<open>Concrete states and environments\<close>

text \<open>The Broker while a redirect completion is in progress, and after it committed its tokens.\<close>

definition redirectingBroker :: "(string \<times> string) list BrokerClientApplication" where
  "redirectingBroker =
     \<lparr>browserStorage = [], activeAccount = None, currentBrokerRedirectResponse = Some Pending\<rparr>"

definition committedBroker :: "(string \<times> string) list BrokerClientApplication" where
  "committedBroker =
     \<lparr>browserStorage =
        [(''https://login.example/common/|embedded-app|User.Read'', ''serialized-result'')],
      activeAccount = Some ''alice'', currentBrokerRedirectResponse = None\<rparr>"

text \<open>The validated form of \<open>exampleAuthMessage\<close>.\<close>

definition exampleValidAuthRequest :: "InteractionType \<Rightarrow> BrokerAuthRequest" where
  "exampleValidAuthRequest t =
     \<lparr>interactionType = t, embeddedClientId = ''embedded-app'',
      embeddedAppOrigin = ''https://child.example'', request = exampleRequest\<rparr>"

text \<open>A Broker configured to block interactive requests.\<close>

definition blockingEnv :: "(string \<times> string) list broker_env" where
  "blockingEnv =
     exampleEnv\<lparr>config := exampleConfig\<lparr>preferredInteractionType := Some None_interaction\<rparr>\<rparr>"

text \<open>An application whose local cache holds a token for every request.\<close>

definition cachedAppEnv :: app_env where
  "cachedAppEnv =
     exampleAppEnv\<lparr>inherited :=
       exampleCollaborators\<lparr>acquireCachedToken := (\<lambda>r. Inr exampleResult)\<rparr>\<rparr>"

text \<open>
  An environment that is not a browser, where every preflight check of the browser environment
  fails, and a bonded embedded client with no active account.
\<close>

definition nonBrowserAppEnv :: app_env where
  "nonBrowserAppEnv =
     exampleAppEnv\<lparr>inherited :=
       exampleCollaborators\<lparr>preflightBrowserEnvironmentCheck :=
         (\<lambda>t. Some NonBrowserEnvironmentError)\<rparr>\<rparr>"

definition bondedAnonymousApp :: application where
  "bondedAnonymousApp = bondedApp\<lparr>app_activeAccount := None\<rparr>"

text \<open>A redirect-completion request of the embedded application, on port 7.\<close>

definition exampleHandleRedirectMessage :: MessageEvent where
  "exampleHandleRedirectMessage =
     \<lparr>data = Some \<lparr>messageType = Some HANDLE_REDIRECT_REQUEST, data_version = Some ''2.0'',
                    data_brokerOrigin = None, data_embeddedClientId = Some ''embedded-app'',
                    data_interactionType = None, data_request = None\<rparr>,
      origin = ''https://child.example'', source = Some 1, ports = [7]\<rparr>"

text \<open>A Broker whose redirect brings back tokens of its own, with nothing to cache.\<close>

definition ownTokensEnv :: "(string \<times> string) list broker_env" where
  "ownTokensEnv =
     exampleEnv\<lparr>collab :=
       exampleCollaborators\<lparr>super_handleRedirectPromise :=
         (\<lambda>h. Inr (Some (exampleResult\<lparr>tokensToCache := None\<rparr>)))\<rparr>\<rparr>"

section \<open>Properties\<close>

subsection \<open>Auxiliary facts\<close>

lemma js_split_not_Nil: "js_split sep s \<noteq> []"
  by (induction s) (auto split: list.splits)

lemma stripPolicyFromUid_eq:
  "stripPolicyFromUid u a =
     (if last (js_split CHR ''-'' u) = policy_of (rev (js_split CHR ''/'' a))
      then js_join CHR ''-'' (butlast (js_split CHR ''-'' u)) else u)"
proof -
  obtain ws w where "js_split CHR ''-'' u = ws @ [w]"
    using js_split_not_Nil [of "CHR ''-''" u] by (metis rev_exhaust)
  then show ?thesis
    by (simp add: stripPolicyFromUid_def)
qed

lemma uid_stored: "uid \<lparr>priv_uid = Some s, priv_utid = t\<rparr> = s"
  by (simp add: uid_def)

lemma utid_stored: "utid \<lparr>priv_uid = s, priv_utid = Some t\<rparr> = t"
  by (simp add: utid_def)

lemma validated_origin:
  "BrokerHandshakeResponse_validate v mp m tr = Inr (Some r) \<Longrightarrow> brokerOrigin r = origin m"
  by (auto simp: BrokerHandshakeResponse_validate_def BrokerMessage_validateMessage_def Let_def
           split: option.splits if_splits)

subsection \<open>ClientInfo\<close>

text \<open>
  C10 (as amended). Let a \<open>ClientInfo\<close> \<open>c\<close> be encoded with \<open>encodeClientInfo\<close>, where
  the encoding is not empty, \<open>base64Decode\<close> gives back what \<open>base64Encode\<close> was given
  and \<open>JSON_parse\<close> gives back the object that \<open>JSON_stringify\<close> wrote. Constructing a
  \<open>ClientInfo\<close> from the encoding and an authority \<open>a\<close> succeeds and yields the \<open>utid\<close>
  of \<open>c\<close>; it yields the \<open>uid\<close> of \<open>c\<close> when the policy segment of \<open>a\<close> (its last
  \<open>/\<close>-separated segment or, when that one is empty, the segment before it, and the empty
  string when there is none) differs from the last \<open>-\<close>-separated segment of the \<open>uid\<close>,
  and the \<open>uid\<close> without that last segment otherwise. Constructing from a null or an empty
  raw string yields empty \<open>uid\<close> and \<open>utid\<close> and does not throw.
\<close>

theorem ClientInfo_roundtrip:
  assumes nonempty: "base64Encode cu (JSON_stringify cu (uid c, utid c)) \<noteq> []"
    and base64: "base64Decode cu (base64Encode cu (JSON_stringify cu (uid c, utid c)))
                   = Inr (JSON_stringify cu (uid c, utid c))"
    and json: "JSON_parse cu (JSON_stringify cu (uid c, utid c))
                 = Inr (Some \<lparr>json_uid = Some (uid c), json_utid = Some (utid c)\<rparr>)"
  shows "(\<exists>c'. ClientInfo_constructor cu (Some (encodeClientInfo cu c)) a = Inr c'
               \<and> utid c' = utid c
               \<and> uid c' =
                   (if last (js_split CHR ''-'' (uid c)) = policy_of (rev (js_split CHR ''/'' a))
                    then js_join CHR ''-'' (butlast (js_split CHR ''-'' (uid c)))
                    else uid c))
         \<and> (\<exists>c0. ClientInfo_constructor cu None a = Inr c0 \<and> uid c0 = [] \<and> utid c0 = [])
         \<and> (\<exists>c0. ClientInfo_constructor cu (Some []) a = Inr c0 \<and> uid c0 = [] \<and> utid c0 = [])"
proof (intro conjI)
  let ?raw = "encodeClientInfo cu c"
  have "ClientInfo_constructor cu (Some ?raw) a =
          Inr \<lparr>priv_uid = Some (stripPolicyFromUid (uid c) a), priv_utid = Some (utid c)\<rparr>"
    using nonempty base64 json by (simp add: ClientInfo_constructor_def encodeClientInfo_def)
  then show "\<exists>c'. ClientInfo_constructor cu (Some ?raw) a = Inr c' \<and> utid c' = utid c
               \<and> uid c' =
                   (if last (js_split CHR ''-'' (uid c)) = policy_of (rev (js_split CHR ''/'' a))
                    then js_join CHR ''-'' (butlast (js_split CHR ''-'' (uid c)))
                    else uid c)"
    by (simp add: uid_stored utid_stored stripPolicyFromUid_eq)
next
  show "\<exists>c0. ClientInfo_constructor cu None a = Inr c0 \<and> uid c0 = [] \<and> utid c0 = []"
    by (simp add: ClientInfo_constructor_def uid_def utid_def)
next
  show "\<exists>c0. ClientInfo_constructor cu (Some []) a = Inr c0 \<and> uid c0 = [] \<and> utid c0 = []"
    by (simp add: ClientInfo_constructor_def uid_def utid_def)
qed

text \<open>
  The theorem at \<open>exampleClientInfo\<close>, whose \<open>uid\<close> ends in the policy of the authority:
  the policy is stripped, the \<open>utid\<close> is kept.
\<close>

theorem ClientInfo_roundtrip_witness:
  "map_sum id (\<lambda>c'. (uid c', utid c'))
     (ClientInfo_constructor exampleCodec (Some (encodeClientInfo exampleCodec exampleClientInfo))
        ''https://login.example/tfp/tenant/b2c_1_signin/'')
     = Inr (''123'', ''456-test-utid'')
   \<and> map_sum id (\<lambda>c'. (uid c', utid c'))
       (ClientInfo_constructor exampleCodec (Some (encodeClientInfo exampleCodec exampleClientInfo))
          ''https://login.example/common/'')
       = Inr (''123-b2c_1_signin'', ''456-test-utid'')"
proof -
  have h1: "base64Encode exampleCodec
              (JSON_stringify exampleCodec (uid exampleClientInfo, utid exampleClientInfo)) \<noteq> []"
    by code_simp
  have h2: "base64Decode exampleCodec
              (base64Encode exampleCodec
                 (JSON_stringify exampleCodec (uid exampleClientInfo, utid exampleClientInfo)))
              = Inr (JSON_stringify exampleCodec (uid exampleClientInfo, utid exampleClientInfo))"
    by code_simp
  have h3: "JSON_parse exampleCodec
              (JSON_stringify exampleCodec (uid exampleClientInfo, utid exampleClientInfo))
              = Inr (Some \<lparr>json_uid = Some (uid exampleClientInfo),
                           json_utid = Some (utid exampleClientInfo)\<rparr>)"
    by code_simp
  have u: "uid exampleClientInfo = ''123-b2c_1_signin''" "utid exampleClientInfo = ''456-test-utid''"
    by (simp_all add: exampleClientInfo_def uid_def utid_def)
  have p1: "(if last (js_split CHR ''-'' ''123-b2c_1_signin'')
                 = policy_of (rev (js_split CHR ''/'' ''https://login.example/tfp/tenant/b2c_1_signin/''))
             then js_join CHR ''-'' (butlast (js_split CHR ''-'' ''123-b2c_1_signin''))
             else ''123-b2c_1_signin'') = ''123''"
    by code_simp
  have p2: "(if last (js_split CHR ''-'' ''123-b2c_1_signin'')
                 = policy_of (rev (js_split CHR ''/'' ''https://login.example/common/''))
             then js_join CHR ''-'' (butlast (js_split CHR ''-'' ''123-b2c_1_signin''))
             else ''123-b2c_1_signin'') = ''123-b2c_1_signin''"
    by code_simp
  from ClientInfo_roundtrip [OF h1 h2 h3, of "''https://login.example/tfp/tenant/b2c_1_signin/''"]
       ClientInfo_roundtrip [OF h1 h2 h3, of "''https://login.example/common/''"]
  show ?thesis
    unfolding u p1 p2 by auto
qed

text \<open>
  The claim as it is worded fails: the trailing non-empty URL segment of
  \<^verbatim>\<open>https://host//\<close> is \<^verbatim>\<open>host\<close>, which differs from the empty last segment of the
  \<open>uid\<close> \<^verbatim>\<open>abc-\<close>, and still the \<open>uid\<close> comes back as \<^verbatim>\<open>abc\<close>: the policy segment
  of this authority is the empty string.
\<close>

theorem ClientInfo_roundtrip_counterexample:
  "trailing_nonempty_segment ''https://host//'' = Some ''host''
   \<and> last (js_split CHR ''-'' (uid \<lparr>priv_uid = Some ''abc-'', priv_utid = Some ''t''\<rparr>)) = []
   \<and> map_sum id uid
       (ClientInfo_constructor exampleCodec
          (Some (encodeClientInfo exampleCodec \<lparr>priv_uid = Some ''abc-'', priv_utid = Some ''t''\<rparr>))
          ''https://host//'') = Inr ''abc''"
  by code_simp

subsection \<open>The handshake response\<close>

text \<open>
  C6. The \<open>brokerOrigin\<close> of a validated handshake response is the origin of the message
  event, which the transport sets; whatever the payload of the event is replaced with, a
  response validated from it has the same \<open>brokerOrigin\<close>.
\<close>

theorem brokerOrigin_from_transport:
  assumes "BrokerHandshakeResponse_validate v mp m tr = Inr (Some r)"
  shows "brokerOrigin r = origin m
     \<and> (\<forall>d r'. BrokerHandshakeResponse_validate v mp (m\<lparr>data := d\<rparr>) tr = Inr (Some r')
           \<longrightarrow> brokerOrigin r' = origin m)"
proof (intro conjI allI impI)
  show "brokerOrigin r = origin m" using assms by (rule validated_origin)
next
  fix d r'
  assume "BrokerHandshakeResponse_validate v mp (m\<lparr>data := d\<rparr>) tr = Inr (Some r')"
  then have "brokerOrigin r' = origin (m\<lparr>data := d\<rparr>)" by (rule validated_origin)
  then show "brokerOrigin r' = origin m" by simp
qed

text \<open>
  A handshake response from \<^verbatim>\<open>https://login.broker.example\<close> whose payload names another
  origin, validated against a wildcard pattern.
\<close>

theorem brokerOrigin_from_transport_witness:
  "BrokerHandshakeResponse_validate exampleValidators wildcardMatch exampleHandshakeResponse
     [''https://other.example'', ''https://*.broker.example'']
     = Inr (Some \<lparr>version = ''2.0'', brokerOrigin = ''https://login.broker.example''\<rparr>)
   \<and> brokerOrigin \<lparr>version = ''2.0'', brokerOrigin = ''https://login.broker.example''\<rparr>
       = origin exampleHandshakeResponse"
proof -
  have h: "BrokerHandshakeResponse_validate exampleValidators wildcardMatch exampleHandshakeResponse
             [''https://other.example'', ''https://*.broker.example'']
             = Inr (Some \<lparr>version = ''2.0'', brokerOrigin = ''https://login.broker.example''\<rparr>)"
    by code_simp
  from brokerOrigin_from_transport [OF h] h show ?thesis by simp
qed

subsection \<open>Running a program\<close>

lemmas run_simps = ret_def throw_def emit_def call_def bindP_def seqP_def tryCatch_def

lemmas exampleEnv_simps = exampleEnv_def exampleValidators_def exampleStorage_def
  exampleCollaborators_def exampleConfig_def exampleKey_def exampleThumbprint_def
  exampleResult_def exampleRequest_def exampleAuthMessage_def exampleBroker_def

lemmas exampleApp_simps = exampleAppEnv_def exampleCollaborators_def exampleBrokering_def
  exampleConfig_def exampleRequest_def standaloneApp_def bondedApp_def connectionEstablished_def

subsection \<open>acquireTokenSilent\<close>

lemma lookup_then_renewal:
  "(case tryCatch (cachedTokenAttempt env sr) (\<lambda>e. tokenRenewal env r') app of
      (evs, app', out) \<Rightarrow>
        app' = app \<and> \<not> list_ex forwarded evs
        \<and> fallbackChain env sr r' (EmitEvent ACQUIRE_TOKEN_START None # evs) out)"
  by (cases "createSilentFlowClient (inherited env) (authority sr)";
      cases "acquireCachedToken (inherited env) sr";
      cases "acquireTokenByRefreshToken (inherited env) r'")
     (simp_all add: cachedTokenAttempt_def tokenRenewal_def cachedLookupFails_def steps_def
        run_simps fallbackChain_def)

text \<open>
  C1 (as amended). Take a call of \<^verbatim>\<open>acquireTokenSilent\<close> that passes the preflight check
  of the browser environment, for which (in \<^verbatim>\<open>ExperimentalClientApplication\<close>) the request
  or the application gives an account, and that is not served by the Broker (no request is
  forwarded). Its first step is the local cached-token lookup; if the lookup fails it makes
  exactly one refresh-token exchange and its outcome is the outcome of that exchange, so a
  renewal error, an interaction-required error included, is rethrown as it is; no popup or
  redirect flow is started. \<^verbatim>\<open>PublicClientApplication\<close> renews with the caller's request,
  \<^verbatim>\<open>ExperimentalClientApplication\<close> with the silent request it built.
\<close>

theorem silent_fallback_chain:
  "(preflightBrowserEnvironmentCheck (inherited env) Silent = None \<longrightarrow>
      (case PublicClientApplication_acquireTokenSilent env r app of
         (evs, app', out) \<Rightarrow>
           \<not> list_ex forwarded evs \<longrightarrow>
             fallbackChain env (initializeBaseRequest (inherited env) r) r evs out))
   \<and> (preflightBrowserEnvironmentCheck (inherited env) Silent = None
        \<and> (case account r of Some a \<Rightarrow> Some a | None \<Rightarrow> app_activeAccount app) = Some accountObj \<longrightarrow>
      (case ExperimentalClientApplication_acquireTokenSilent env r app of
         (evs, app', out) \<Rightarrow>
           \<not> list_ex forwarded evs \<longrightarrow>
             fallbackChain env
               ((initializeBaseRequest (inherited env) r)
                  \<lparr>account := Some accountObj, forceRefresh := forceRefresh r\<rparr>)
               ((initializeBaseRequest (inherited env) r)
                  \<lparr>account := Some accountObj, forceRefresh := forceRefresh r\<rparr>)
               evs out))"
proof (intro conjI impI)
  assume pre: "preflightBrowserEnvironmentCheck (inherited env) Silent = None"
  show "case PublicClientApplication_acquireTokenSilent env r app of
         (evs, app', out) \<Rightarrow>
           \<not> list_ex forwarded evs \<longrightarrow>
             fallbackChain env (initializeBaseRequest (inherited env) r) r evs out"
  proof (cases "connectionEstablished app")
    case True
    with pre show ?thesis
      by (simp add: PublicClientApplication_acquireTokenSilent_def preflight_def run_simps)
  next
    case False
    with pre lookup_then_renewal
      [where env = env and sr = "initializeBaseRequest (inherited env) r" and r' = r and app = app]
    show ?thesis
      by (simp add: PublicClientApplication_acquireTokenSilent_def preflight_def
            ret_def emit_def seqP_def bindP_def split: prod.splits)
  qed
next
  let ?sr = "(initializeBaseRequest (inherited env) r)
               \<lparr>account := Some accountObj, forceRefresh := forceRefresh r\<rparr>"
  assume "preflightBrowserEnvironmentCheck (inherited env) Silent = None
        \<and> (case account r of Some a \<Rightarrow> Some a | None \<Rightarrow> app_activeAccount app) = Some accountObj"
  then have pre: "preflightBrowserEnvironmentCheck (inherited env) Silent = None"
    and acc: "(case account r of Some a \<Rightarrow> Some a | None \<Rightarrow> app_activeAccount app) = Some accountObj"
    by simp_all
  show "case ExperimentalClientApplication_acquireTokenSilent env r app of
         (evs, app', out) \<Rightarrow>
           \<not> list_ex forwarded evs \<longrightarrow> fallbackChain env ?sr ?sr evs out"
  proof (cases "connectionEstablished app")
    case False
    from pre acc False show ?thesis
      unfolding ExperimentalClientApplication_acquireTokenSilent_def Let_def
      by (cases "createSilentFlowClient (inherited env) (authority ?sr)";
          cases "acquireCachedToken (inherited env) ?sr";
          cases "acquireTokenByRefreshToken (inherited env) ?sr")
         (simp_all add: preflight_def cachedTokenAttempt_def tokenRenewal_def
            cachedLookupFails_def steps_def fallbackChain_def run_simps)
  next
    case True
    from pre acc True show ?thesis
      unfolding ExperimentalClientApplication_acquireTokenSilent_def Let_def
      by (cases "createSilentFlowClient (inherited env) (authority ?sr)";
          cases "acquireCachedToken (inherited env) ?sr")
         (simp_all add: preflight_def cachedTokenAttempt_def cachedLookupFails_def steps_def
            fallbackChain_def run_simps)
  qed
qed

text \<open>
  A standalone application with no cached token, whose renewal needs interaction: one lookup,
  one exchange, and the interaction-required error comes back as it is, in both classes.
\<close>

theorem silent_fallback_chain_witness:
  "PublicClientApplication_acquireTokenSilent exampleAppEnv exampleRequest standaloneApp
     = ([EmitEvent ACQUIRE_TOKEN_START None,
         CreateSilentFlowClient (Some ''https://login.example/common/''),
         AcquireCachedToken exampleRequest, AcquireTokenByRefreshToken exampleRequest,
         EmitEvent ACQUIRE_TOKEN_FAILURE (Some InteractionRequiredAuthError)],
        standaloneApp, Inl InteractionRequiredAuthError)
   \<and> fallbackChain exampleAppEnv exampleRequest exampleRequest
        [EmitEvent ACQUIRE_TOKEN_START None,
         CreateSilentFlowClient (Some ''https://login.example/common/''),
         AcquireCachedToken exampleRequest, AcquireTokenByRefreshToken exampleRequest,
         EmitEvent ACQUIRE_TOKEN_FAILURE (Some InteractionRequiredAuthError)]
        (Inl InteractionRequiredAuthError)
   \<and> ExperimentalClientApplication_acquireTokenSilent exampleAppEnv
        (exampleRequest\<lparr>account := Some ''bob''\<rparr>) standaloneApp
     = ([EmitEvent ACQUIRE_TOKEN_START None,
         CreateSilentFlowClient (Some ''https://login.example/common/''),
         AcquireCachedToken (exampleRequest\<lparr>account := Some ''bob''\<rparr>),
         AcquireTokenByRefreshToken (exampleRequest\<lparr>account := Some ''bob''\<rparr>),
         EmitEvent ACQUIRE_TOKEN_FAILURE (Some InteractionRequiredAuthError)],
        standaloneApp, Inl InteractionRequiredAuthError)
   \<and> fallbackChain exampleAppEnv (exampleRequest\<lparr>account := Some ''bob''\<rparr>)
        (exampleRequest\<lparr>account := Some ''bob''\<rparr>)
        [EmitEvent ACQUIRE_TOKEN_START None,
         CreateSilentFlowClient (Some ''https://login.example/common/''),
         AcquireCachedToken (exampleRequest\<lparr>account := Some ''bob''\<rparr>),
         AcquireTokenByRefreshToken (exampleRequest\<lparr>account := Some ''bob''\<rparr>),
         EmitEvent ACQUIRE_TOKEN_FAILURE (Some InteractionRequiredAuthError)]
        (Inl InteractionRequiredAuthError)"
proof -
  have pre: "preflightBrowserEnvironmentCheck (inherited exampleAppEnv) Silent = None"
    by (simp add: exampleApp_simps)
  have base: "initializeBaseRequest (inherited exampleAppEnv) r = r" for r
    by (simp add: exampleApp_simps)
  have run1: "PublicClientApplication_acquireTokenSilent exampleAppEnv exampleRequest standaloneApp
     = ([EmitEvent ACQUIRE_TOKEN_START None,
         CreateSilentFlowClient (Some ''https://login.example/common/''),
         AcquireCachedToken exampleRequest, AcquireTokenByRefreshToken exampleRequest,
         EmitEvent ACQUIRE_TOKEN_FAILURE (Some InteractionRequiredAuthError)],
        standaloneApp, Inl InteractionRequiredAuthError)"
    by (simp add: PublicClientApplication_acquireTokenSilent_def preflight_def
          cachedTokenAttempt_def tokenRenewal_def run_simps exampleApp_simps)
  have run2: "ExperimentalClientApplication_acquireTokenSilent exampleAppEnv
        (exampleRequest\<lparr>account := Some ''bob''\<rparr>) standaloneApp
     = ([EmitEvent ACQUIRE_TOKEN_START None,
         CreateSilentFlowClient (Some ''https://login.example/common/''),
         AcquireCachedToken (exampleRequest\<lparr>account := Some ''bob''\<rparr>),
         AcquireTokenByRefreshToken (exampleRequest\<lparr>account := Some ''bob''\<rparr>),
         EmitEvent ACQUIRE_TOKEN_FAILURE (Some InteractionRequiredAuthError)],
        standaloneApp, Inl InteractionRequiredAuthError)"
    by (simp add: ExperimentalClientApplication_acquireTokenSilent_def preflight_def
          cachedTokenAttempt_def tokenRenewal_def run_simps exampleApp_simps Let_def)
  have acc: "(case account (exampleRequest\<lparr>account := Some ''bob''\<rparr>) of
                Some a \<Rightarrow> Some a | None \<Rightarrow> app_activeAccount standaloneApp) = Some ''bob''"
    by simp
  have same: "(exampleRequest\<lparr>account := Some ''bob''\<rparr>)
                \<lparr>account := Some ''bob'',
                 forceRefresh := forceRefresh (exampleRequest\<lparr>account := Some ''bob''\<rparr>)\<rparr>
              = exampleRequest\<lparr>account := Some ''bob''\<rparr>"
    by (simp add: exampleRequest_def)
  from silent_fallback_chain
         [where env = exampleAppEnv and r = exampleRequest and app = standaloneApp]
       silent_fallback_chain
         [where env = exampleAppEnv and r = "exampleRequest\<lparr>account := Some ''bob''\<rparr>"
            and app = standaloneApp and accountObj = "''bob''"]
  show ?thesis
    unfolding base same
    by (simp add: pre acc run1 run2)
qed

text \<open>
  The claim as it is worded fails: an \<^verbatim>\<open>ExperimentalClientApplication\<close> that is not bonded
  to a Broker, called with no account in the request and none active, throws the no-account
  error before any cached-token lookup.
\<close>

theorem silent_fallback_chain_counterexample:
  "\<not> connectionEstablished standaloneApp
   \<and> ExperimentalClientApplication_acquireTokenSilent exampleAppEnv exampleRequest standaloneApp
       = ([], standaloneApp, Inl NoAccountError)"
  by (simp add: ExperimentalClientApplication_acquireTokenSilent_def preflight_def run_simps
        exampleApp_simps)

subsection \<open>Calls of a bonded embedded client\<close>

text \<open>
  C7 (as amended). While the broker connection of the embedded client is established:

  \<^item> \<^verbatim>\<open>acquireTokenSilent\<close> of \<^verbatim>\<open>PublicClientApplication\<close>, \<^verbatim>\<open>acquireTokenPopup\<close> of
    both classes and \<^verbatim>\<open>handleRedirectPromise\<close> of an application that is not itself a
    Broker forward the call to the Broker instead of running it locally: the trace forwards
    exactly one request, has no local cache lookup and no local acquisition before or after
    it, and the call returns the Broker's answer. A call that fails a preflight check (the
    check of the browser environment in \<^verbatim>\<open>acquireTokenSilent\<close>; that check and the check
    of the interactive request in \<^verbatim>\<open>acquireTokenPopup\<close> of
    \<^verbatim>\<open>ExperimentalClientApplication\<close>) is rejected with the error of the check, and is
    neither forwarded nor run locally. \<^verbatim>\<open>handleRedirectPromise\<close> of an application that
    is itself a Broker is answered by its Broker object.

  \<^item> \<^verbatim>\<open>acquireTokenSilent\<close> of \<^verbatim>\<open>ExperimentalClientApplication\<close> is rejected, and
    neither forwarded nor run locally, when the check of the browser environment fails or
    when neither the request nor the application gives an account (the no-account error).
    Every other call first looks the token up in the local cache; it returns a cached token
    without forwarding, and only when the lookup fails it forwards the request to the Broker
    and returns the Broker's answer. The lookup is its only local work: it makes no
    refresh-token exchange and starts no interactive flow.

  No call changes the fields of the application.
\<close>

theorem brokered_calls_forwarded:
  assumes bonded: "connectionEstablished app"
  shows "(case PublicClientApplication_acquireTokenSilent env r app of
            (evs, app', out) \<Rightarrow>
              app' = app
              \<and> (case preflightBrowserEnvironmentCheck (inherited env) Silent of
                    Some e \<Rightarrow> evs = [] \<and> out = Inl e
                  | None \<Rightarrow>
                      forwardedInstead (SendSilentRefreshRequest r) evs
                      \<and> out = sendSilentRefreshRequest (brokered env) r))
       \<and> (case PublicClientApplication_acquireTokenPopup env r app of
             (evs, app', out) \<Rightarrow>
               app' = app \<and> forwardedInstead (SendPopupRequest r) evs
               \<and> out = sendPopupRequest (brokered env) r)
       \<and> (case ExperimentalClientApplication_acquireTokenPopup env r app of
             (evs, app', out) \<Rightarrow>
               app' = app
               \<and> (case preflightBrowserEnvironmentCheck (inherited env) Popup of
                     Some e \<Rightarrow> evs = [] \<and> out = Inl e
                   | None \<Rightarrow>
                       (case preflightInteractiveRequest (inherited env) r Popup of
                          Inl e \<Rightarrow> evs = [] \<and> out = Inl e
                        | Inr validRequest \<Rightarrow>
                            forwardedInstead (SendPopupRequest validRequest) evs
                            \<and> out = sendPopupRequest (brokered env) validRequest)))
       \<and> (case application_handleRedirectPromise env hash app of
             (evs, app', out) \<Rightarrow>
               app' = app
               \<and> (if broker app
                   then evs = [BrokerHandleRedirectPromise hash]
                        \<and> out = broker_handleRedirectPromise (brokered env) hash
                   else forwardedInstead SendHandleRedirectRequest evs
                        \<and> out = sendHandleRedirectRequest (brokered env)))
       \<and> (case ExperimentalClientApplication_acquireTokenSilent env r app of
             (evs, app', out) \<Rightarrow>
               app' = app
               \<and> (case preflightBrowserEnvironmentCheck (inherited env) Silent of
                     Some e \<Rightarrow> evs = [] \<and> out = Inl e
                   | None \<Rightarrow>
                       (case (case account r of Some a \<Rightarrow> Some a | None \<Rightarrow> app_activeAccount app) of
                          None \<Rightarrow> evs = [] \<and> out = Inl NoAccountError
                        | Some accountObj \<Rightarrow>
                            \<not> list_ex renewal_attempt evs \<and> \<not> list_ex interactive_flow evs
                            \<and> (if cachedLookupFails env
                                     ((initializeBaseRequest (inherited env) r)
                                        \<lparr>account := Some accountObj, forceRefresh := forceRefresh r\<rparr>)
                                then forwardedAfterLookup (SendSilentRefreshRequest r) evs
                                     \<and> out = sendSilentRefreshRequest (brokered env) r
                                else answeredLocally evs
                                     \<and> out = acquireCachedToken (inherited env)
                                               ((initializeBaseRequest (inherited env) r)
                                                  \<lparr>account := Some accountObj,
                                                   forceRefresh := forceRefresh r\<rparr>)))))"
proof (intro conjI)
  from bonded show "case PublicClientApplication_acquireTokenSilent env r app of
            (evs, app', out) \<Rightarrow>
              app' = app
              \<and> (case preflightBrowserEnvironmentCheck (inherited env) Silent of
                    Some e \<Rightarrow> evs = [] \<and> out = Inl e
                  | None \<Rightarrow>
                      forwardedInstead (SendSilentRefreshRequest r) evs
                      \<and> out = sendSilentRefreshRequest (brokered env) r)"
    by (cases "preflightBrowserEnvironmentCheck (inherited env) Silent")
       (simp_all add: PublicClientApplication_acquireTokenSilent_def preflight_def
          forwardedInstead_def run_simps)
next
  from bonded show "case PublicClientApplication_acquireTokenPopup env r app of
             (evs, app', out) \<Rightarrow>
               app' = app \<and> forwardedInstead (SendPopupRequest r) evs
               \<and> out = sendPopupRequest (brokered env) r"
    by (simp add: PublicClientApplication_acquireTokenPopup_def forwardedInstead_def run_simps)
next
  from bonded show "case ExperimentalClientApplication_acquireTokenPopup env r app of
             (evs, app', out) \<Rightarrow>
               app' = app
               \<and> (case preflightBrowserEnvironmentCheck (inherited env) Popup of
                     Some e \<Rightarrow> evs = [] \<and> out = Inl e
                   | None \<Rightarrow>
                       (case preflightInteractiveRequest (inherited env) r Popup of
                          Inl e \<Rightarrow> evs = [] \<and> out = Inl e
                        | Inr validRequest \<Rightarrow>
                            forwardedInstead (SendPopupRequest validRequest) evs
                            \<and> out = sendPopupRequest (brokered env) validRequest))"
    by (cases "preflightBrowserEnvironmentCheck (inherited env) Popup";
        cases "preflightInteractiveRequest (inherited env) r Popup")
       (simp_all add: ExperimentalClientApplication_acquireTokenPopup_def preflight_def
          forwardedInstead_def run_simps)
next
  from bonded show "case application_handleRedirectPromise env hash app of
             (evs, app', out) \<Rightarrow>
               app' = app
               \<and> (if broker app
                   then evs = [BrokerHandleRedirectPromise hash]
                        \<and> out = broker_handleRedirectPromise (brokered env) hash
                   else forwardedInstead SendHandleRedirectRequest evs
                        \<and> out = sendHandleRedirectRequest (brokered env))"
    by (simp add: application_handleRedirectPromise_def forwardedInstead_def run_simps)
next
  show "case ExperimentalClientApplication_acquireTokenSilent env r app of
             (evs, app', out) \<Rightarrow>
               app' = app
               \<and> (case preflightBrowserEnvironmentCheck (inherited env) Silent of
                     Some e \<Rightarrow> evs = [] \<and> out = Inl e
                   | None \<Rightarrow>
                       (case (case account r of Some a \<Rightarrow> Some a | None \<Rightarrow> app_activeAccount app) of
                          None \<Rightarrow> evs = [] \<and> out = Inl NoAccountError
                        | Some accountObj \<Rightarrow>
                            \<not> list_ex renewal_attempt evs \<and> \<not> list_ex interactive_flow evs
                            \<and> (if cachedLookupFails env
                                     ((initializeBaseRequest (inherited env) r)
                                        \<lparr>account := Some accountObj, forceRefresh := forceRefresh r\<rparr>)
                                then forwardedAfterLookup (SendSilentRefreshRequest r) evs
                                     \<and> out = sendSilentRefreshRequest (brokered env) r
                                else answeredLocally evs
                                     \<and> out = acquireCachedToken (inherited env)
                                               ((initializeBaseRequest (inherited env) r)
                                                  \<lparr>account := Some accountObj,
                                                   forceRefresh := forceRefresh r\<rparr>))))"
  proof (cases "preflightBrowserEnvironmentCheck (inherited env) Silent")
    case (Some e)
    then show ?thesis
      by (simp add: ExperimentalClientApplication_acquireTokenSilent_def preflight_def run_simps)
  next
    case None
    note pre = this
    show ?thesis
    proof (cases "case account r of Some a \<Rightarrow> Some a | None \<Rightarrow> app_activeAccount app")
      case None
      with pre show ?thesis
        by (simp add: ExperimentalClientApplication_acquireTokenSilent_def preflight_def run_simps)
    next
      case (Some accountObj)
      let ?sr = "(initializeBaseRequest (inherited env) r)
                   \<lparr>account := Some accountObj, forceRefresh := forceRefresh r\<rparr>"
      from pre Some bonded show ?thesis
        unfolding ExperimentalClientApplication_acquireTokenSilent_def Let_def
        by (cases "createSilentFlowClient (inherited env) (authority ?sr)";
            cases "acquireCachedToken (inherited env) ?sr")
           (simp_all add: preflight_def cachedTokenAttempt_def cachedLookupFails_def steps_def
              forwardedAfterLookup_def answeredLocally_def run_simps)
    qed
  qed
qed

text \<open>
  A bonded embedded client with no cached token: every call goes to the Broker, the silent
  call of \<^verbatim>\<open>ExperimentalClientApplication\<close> after its local lookup has failed. The same
  client with no active account, and the same client outside a browser: the calls are
  rejected and nothing is forwarded.
\<close>

theorem brokered_calls_forwarded_witness:
  "connectionEstablished bondedApp \<and> connectionEstablished bondedAnonymousApp
   \<and> PublicClientApplication_acquireTokenSilent exampleAppEnv exampleRequest bondedApp
       = ([EmitEvent ACQUIRE_TOKEN_START None, SendSilentRefreshRequest exampleRequest],
          bondedApp, Inr exampleResult)
   \<and> PublicClientApplication_acquireTokenPopup exampleAppEnv exampleRequest bondedApp
       = ([SendPopupRequest exampleRequest], bondedApp, Inr exampleResult)
   \<and> ExperimentalClientApplication_acquireTokenPopup exampleAppEnv exampleRequest bondedApp
       = ([SendPopupRequest exampleRequest], bondedApp, Inr exampleResult)
   \<and> application_handleRedirectPromise exampleAppEnv None bondedApp
       = ([SendHandleRedirectRequest], bondedApp, Inr None)
   \<and> ExperimentalClientApplication_acquireTokenSilent exampleAppEnv exampleRequest bondedApp
       = ([EmitEvent ACQUIRE_TOKEN_START None,
           CreateSilentFlowClient (Some ''https://login.example/common/''),
           AcquireCachedToken (exampleRequest\<lparr>account := Some ''alice''\<rparr>),
           SendSilentRefreshRequest exampleRequest], bondedApp, Inr exampleResult)
   \<and> forwardedInstead (SendSilentRefreshRequest exampleRequest)
         [EmitEvent ACQUIRE_TOKEN_START None, SendSilentRefreshRequest exampleRequest]
   \<and> forwardedInstead (SendPopupRequest exampleRequest) [SendPopupRequest exampleRequest]
   \<and> forwardedInstead SendHandleRedirectRequest [SendHandleRedirectRequest]
   \<and> forwardedAfterLookup (SendSilentRefreshRequest exampleRequest)
         [EmitEvent ACQUIRE_TOKEN_START None,
          CreateSilentFlowClient (Some ''https://login.example/common/''),
          AcquireCachedToken (exampleRequest\<lparr>account := Some ''alice''\<rparr>),
          SendSilentRefreshRequest exampleRequest]
   \<and> ExperimentalClientApplication_acquireTokenSilent exampleAppEnv exampleRequest
         bondedAnonymousApp
       = ([], bondedAnonymousApp, Inl NoAccountError)
   \<and> ExperimentalClientApplication_acquireTokenSilent nonBrowserAppEnv exampleRequest bondedApp
       = ([], bondedApp, Inl NonBrowserEnvironmentError)
   \<and> PublicClientApplication_acquireTokenSilent nonBrowserAppEnv exampleRequest bondedApp
       = ([], bondedApp, Inl NonBrowserEnvironmentError)
   \<and> ExperimentalClientApplication_acquireTokenPopup nonBrowserAppEnv exampleRequest bondedApp
       = ([], bondedApp, Inl NonBrowserEnvironmentError)"
proof -
  have bonded: "connectionEstablished bondedApp"
    by (simp add: exampleApp_simps)
  have anonymous: "connectionEstablished bondedAnonymousApp"
    by (simp add: bondedAnonymousApp_def exampleApp_simps)
  have pre: "preflightBrowserEnvironmentCheck (inherited exampleAppEnv) t = None" for t
    by (simp add: exampleApp_simps)
  have blocked: "preflightBrowserEnvironmentCheck (inherited nonBrowserAppEnv) t
                   = Some NonBrowserEnvironmentError" for t
    by (simp add: nonBrowserAppEnv_def exampleApp_simps)
  have valid: "preflightInteractiveRequest (inherited exampleAppEnv) exampleRequest Popup
                 = Inr exampleRequest"
    by (simp add: exampleAppEnv_def exampleCollaborators_def)
  have own: "\<not> broker bondedApp"
    by (simp add: bondedApp_def)
  have acc: "(case account exampleRequest of Some a \<Rightarrow> Some a | None \<Rightarrow> app_activeAccount bondedApp)
               = Some ''alice''"
    by (simp add: exampleRequest_def bondedApp_def)
  have none: "(case account exampleRequest of Some a \<Rightarrow> Some a
               | None \<Rightarrow> app_activeAccount bondedAnonymousApp) = None"
    by (simp add: exampleRequest_def bondedAnonymousApp_def bondedApp_def)
  have run1: "PublicClientApplication_acquireTokenSilent exampleAppEnv exampleRequest bondedApp
       = ([EmitEvent ACQUIRE_TOKEN_START None, SendSilentRefreshRequest exampleRequest],
          bondedApp, Inr exampleResult)"
    by (simp add: PublicClientApplication_acquireTokenSilent_def preflight_def run_simps
          exampleApp_simps)
  have run2: "PublicClientApplication_acquireTokenPopup exampleAppEnv exampleRequest bondedApp
       = ([SendPopupRequest exampleRequest], bondedApp, Inr exampleResult)"
    by (simp add: PublicClientApplication_acquireTokenPopup_def run_simps exampleApp_simps)
  have run3: "ExperimentalClientApplication_acquireTokenPopup exampleAppEnv exampleRequest bondedApp
       = ([SendPopupRequest exampleRequest], bondedApp, Inr exampleResult)"
    by (simp add: ExperimentalClientApplication_acquireTokenPopup_def preflight_def run_simps
          exampleApp_simps)
  have run4: "application_handleRedirectPromise exampleAppEnv None bondedApp
       = ([SendHandleRedirectRequest], bondedApp, Inr None)"
    by (simp add: application_handleRedirectPromise_def run_simps exampleApp_simps)
  have run5: "ExperimentalClientApplication_acquireTokenSilent exampleAppEnv exampleRequest bondedApp
       = ([EmitEvent ACQUIRE_TOKEN_START None,
           CreateSilentFlowClient (Some ''https://login.example/common/''),
           AcquireCachedToken (exampleRequest\<lparr>account := Some ''alice''\<rparr>),
           SendSilentRefreshRequest exampleRequest], bondedApp, Inr exampleResult)"
    by (simp add: ExperimentalClientApplication_acquireTokenSilent_def preflight_def
          cachedTokenAttempt_def run_simps exampleApp_simps Let_def)
  have fails: "cachedLookupFails exampleAppEnv
                 ((initializeBaseRequest (inherited exampleAppEnv) exampleRequest)
                    \<lparr>account := Some ''alice'', forceRefresh := forceRefresh exampleRequest\<rparr>)"
    by (simp add: cachedLookupFails_def exampleApp_simps)
  from brokered_calls_forwarded
         [OF bonded, where env = exampleAppEnv and r = exampleRequest and hash = None]
  have forwarded_calls:
    "forwardedInstead (SendSilentRefreshRequest exampleRequest)
         [EmitEvent ACQUIRE_TOKEN_START None, SendSilentRefreshRequest exampleRequest]
     \<and> forwardedInstead (SendPopupRequest exampleRequest) [SendPopupRequest exampleRequest]
     \<and> forwardedInstead SendHandleRedirectRequest [SendHandleRedirectRequest]
     \<and> forwardedAfterLookup (SendSilentRefreshRequest exampleRequest)
         [EmitEvent ACQUIRE_TOKEN_START None,
          CreateSilentFlowClient (Some ''https://login.example/common/''),
          AcquireCachedToken (exampleRequest\<lparr>account := Some ''alice''\<rparr>),
          SendSilentRefreshRequest exampleRequest]"
    by (simp add: pre valid own acc fails run1 run2 run3 run4 run5)
  from brokered_calls_forwarded
         [OF anonymous, where env = exampleAppEnv and r = exampleRequest and hash = None]
  have no_account:
    "ExperimentalClientApplication_acquireTokenSilent exampleAppEnv exampleRequest
         bondedAnonymousApp
       = ([], bondedAnonymousApp, Inl NoAccountError)"
    by (simp add: pre none split: prod.splits)
  from brokered_calls_forwarded
         [OF bonded, where env = nonBrowserAppEnv and r = exampleRequest and hash = None]
  have rejected:
    "ExperimentalClientApplication_acquireTokenSilent nonBrowserAppEnv exampleRequest bondedApp
       = ([], bondedApp, Inl NonBrowserEnvironmentError)
     \<and> PublicClientApplication_acquireTokenSilent nonBrowserAppEnv exampleRequest bondedApp
       = ([], bondedApp, Inl NonBrowserEnvironmentError)
     \<and> ExperimentalClientApplication_acquireTokenPopup nonBrowserAppEnv exampleRequest bondedApp
       = ([], bondedApp, Inl NonBrowserEnvironmentError)"
    by (simp add: blocked split: prod.splits)
  from bonded anonymous run1 run2 run3 run4 run5 forwarded_calls no_account rejected
  show ?thesis
    by simp
qed

text \<open>
  The claim as it is worded fails for \<^verbatim>\<open>acquireTokenSilent\<close> of a bonded
  \<^verbatim>\<open>ExperimentalClientApplication\<close>. When its local cache holds the token, it looks the
  token up locally and returns it, and nothing is forwarded to the Broker. When its local
  cache does not hold the token, the local lookup is made before the request is forwarded.
\<close>

theorem brokered_calls_forwarded_counterexample:
  "connectionEstablished bondedApp
   \<and> ExperimentalClientApplication_acquireTokenSilent cachedAppEnv exampleRequest bondedApp
       = ([EmitEvent ACQUIRE_TOKEN_START None,
           CreateSilentFlowClient (Some ''https://login.example/common/''),
           AcquireCachedToken (exampleRequest\<lparr>account := Some ''alice''\<rparr>),
           EmitEvent ACQUIRE_TOKEN_SUCCESS None], bondedApp, Inr exampleResult)
   \<and> \<not> list_ex forwarded
         [EmitEvent ACQUIRE_TOKEN_START None,
          CreateSilentFlowClient (Some ''https://login.example/common/''),
          AcquireCachedToken (exampleRequest\<lparr>account := Some ''alice''\<rparr>),
          EmitEvent ACQUIRE_TOKEN_SUCCESS None]
   \<and> list_ex local_acquisition
         [EmitEvent ACQUIRE_TOKEN_START None,
          CreateSilentFlowClient (Some ''https://login.example/common/''),
          AcquireCachedToken (exampleRequest\<lparr>account := Some ''alice''\<rparr>),
          EmitEvent ACQUIRE_TOKEN_SUCCESS None]
   \<and> ExperimentalClientApplication_acquireTokenSilent exampleAppEnv exampleRequest bondedApp
       = ([EmitEvent ACQUIRE_TOKEN_START None,
           CreateSilentFlowClient (Some ''https://login.example/common/''),
           AcquireCachedToken (exampleRequest\<lparr>account := Some ''alice''\<rparr>),
           SendSilentRefreshRequest exampleRequest], bondedApp, Inr exampleResult)
   \<and> list_ex local_acquisition
         (takeWhile (\<lambda>e. \<not> forwarded e)
            [EmitEvent ACQUIRE_TOKEN_START None,
             CreateSilentFlowClient (Some ''https://login.example/common/''),
             AcquireCachedToken (exampleRequest\<lparr>account := Some ''alice''\<rparr>),
             SendSilentRefreshRequest exampleRequest])"
  by (simp add: ExperimentalClientApplication_acquireTokenSilent_def preflight_def
        cachedTokenAttempt_def run_simps cachedAppEnv_def exampleApp_simps Let_def)

subsection \<open>Dispatch of incoming messages\<close>

text \<open>
  What \<^verbatim>\<open>handleBrokerMessage\<close> does with a message whose envelope is invalid, or whose
  message type it does not handle: nothing. And \<^verbatim>\<open>BrokerHandshakeResponse.validate\<close>
  raises the untrusted-broker error for a well-formed response that matches no trusted domain.
\<close>

lemma invalid_envelope_dropped:
  "\<not> envelopeValid (validate env) m \<Longrightarrow> handleBrokerMessage env m b = Completed ([], b, Inr ())"
  by (simp add: handleBrokerMessage_def BrokerMessage_validateMessage_def run_simps)

lemma unhandled_type_dropped:
  "data m = Some d
   \<Longrightarrow> messageType d \<notin> {Some HANDSHAKE_REQUEST, Some HANDLE_REDIRECT_REQUEST, Some AUTH_REQUEST}
   \<Longrightarrow> handleBrokerMessage env m b = Completed ([], b, Inr ())"
  by (auto simp add: handleBrokerMessage_def BrokerMessage_validateMessage_def run_simps
           split: option.splits BrokerMessageType.splits)

lemma untrusted_origin_raises:
  "envelopeValid v m \<Longrightarrow> data m = Some d \<Longrightarrow> messageType d = Some HANDSHAKE_RESPONSE
   \<Longrightarrow> data_version d = Some ver \<Longrightarrow> ver \<noteq> []
   \<Longrightarrow> \<forall>domain \<in> set tr. \<not> mp domain (origin m)
   \<Longrightarrow> BrokerHandshakeResponse_validate v mp m tr = Inl UntrustedBrokerError"
  by (simp add: BrokerHandshakeResponse_validate_def BrokerMessage_validateMessage_def
        filter_empty_conv)

text \<open>
  A handshake request is answered whatever \<^verbatim>\<open>BrokerHandshakeRequest.validate\<close> says of it:
  the handler computes the verdict and does not read it.
\<close>

lemma handshake_answered_unread:
  assumes "envelopeValid (validate env) m" and "data m = Some d"
    and "messageType d = Some HANDSHAKE_REQUEST" and "source m = Some w"
  shows "handleBrokerMessage env m b =
           Completed ([WindowPostMessage w
                         (BrokerHandshakeResponseMessage (packageVersion (config env)) [])
                         (origin m)], b, Inr ())"
  using assms
  by (simp add: handleBrokerMessage_def BrokerMessage_validateMessage_def
        handleBrokerHandshake_def run_simps)

text \<open>
  C5. The code at a handshake request that carries no version: its validation yields
  \<open>None\<close>, and the Broker still posts a handshake response to the sender.
\<close>

theorem malformed_handshake_request_answered:
  "BrokerHandshakeRequest_validate (validate exampleEnv) bareHandshakeRequest = None
   \<and> handleBrokerMessage exampleEnv bareHandshakeRequest exampleBroker
       = Completed ([WindowPostMessage 3 (BrokerHandshakeResponseMessage ''2.0'' [])
                       ''https://other.example''], exampleBroker, Inr ())"
  by (simp add: handleBrokerMessage_def BrokerMessage_validateMessage_def
        handleBrokerHandshake_def run_simps exampleEnv_simps bareHandshakeRequest_def)

subsection \<open>Thumbprints and the Response Cache\<close>

text \<open>
  C8. Two validated requests with the same authority, the same embedded client id and scope
  lists with the same elements (in any order, with or without repetitions) have equal probe
  thumbprints, and a result stored under the thumbprint of one is found by a probe with the
  thumbprint of the other, for the same origin.
\<close>

theorem thumbprint_ignores_scope_order:
  assumes "authority (request vm1) = authority (request vm2)"
    and "embeddedClientId vm1 = embeddedClientId vm2"
    and "set (scopes (request vm1)) = set (scopes (request vm2))"
  shows "thumbprint_eq (reqThumbprint vm1) (reqThumbprint vm2)
       \<and> fst (getByThumbprint (reqThumbprint vm2) org (put (reqThumbprint vm1) org r c)) = Some r"
  using assms
  by (simp add: thumbprint_eq_def reqThumbprint_def getByThumbprint_def put_def
        cache_key_matches_def)

text \<open>Scopes \<^verbatim>\<open>[User.Read, Mail.Read]\<close> stored, \<^verbatim>\<open>[Mail.Read, User.Read, Mail.Read]\<close> probed.\<close>

theorem thumbprint_ignores_scope_order_witness:
  "fst (getByThumbprint
          (reqThumbprint ((exampleValidAuthRequest Silent)
             \<lparr>request := exampleRequest\<lparr>scopes := [''Mail.Read'', ''User.Read'', ''Mail.Read'']\<rparr>\<rparr>))
          ''https://child.example''
          (put (reqThumbprint ((exampleValidAuthRequest Popup)
                  \<lparr>request := exampleRequest\<lparr>scopes := [''User.Read'', ''Mail.Read'']\<rparr>\<rparr>))
             ''https://child.example'' ''serialized-result'' []))
     = Some ''serialized-result''"
proof -
  have "set (scopes (request ((exampleValidAuthRequest Popup)
                \<lparr>request := exampleRequest\<lparr>scopes := [''User.Read'', ''Mail.Read'']\<rparr>\<rparr>)))
        = set (scopes (request ((exampleValidAuthRequest Silent)
                \<lparr>request := exampleRequest\<lparr>scopes := [''Mail.Read'', ''User.Read'', ''Mail.Read'']\<rparr>\<rparr>)))"
    by (auto simp: exampleValidAuthRequest_def)
  from thumbprint_ignores_scope_order [OF _ _ this, of "''https://child.example''"
         "''serialized-result''" "[]"]
  show ?thesis
    by (simp add: exampleValidAuthRequest_def)
qed

subsection \<open>handleRedirectPromise of the Broker\<close>

text \<open>
  C9. When the redirect response that \<^verbatim>\<open>handleRedirectPromise\<close> of the Broker processes
  completes with a result: if the result has \<open>tokensToCache\<close>, it is written to the
  memory cache, serialized, under the key generated from its response thumbprint, its
  account becomes the active account and \<open>None\<close> is returned; if not, the result is
  returned, the storage stays as it was and no event but the call of the inherited method is
  recorded. In both cases the stored promise is cleared.
\<close>

theorem handleRedirectPromise_caches_brokered_tokens:
  assumes "super_handleRedirectPromise (collab env) hash = Inr (Some r)"
  shows "handleRedirectPromise env hash b =
     (if tokensToCache r \<noteq> None
      then ([SuperHandleRedirectPromise hash,
             SetMemoryCache (generateBrokerResponseKey (storage env) (responseThumbprint r))
               (JSON_stringify_result (collab env) r),
             SetActiveAccount (res_account r)],
            b\<lparr>browserStorage :=
                 setMemoryCache (storage env) (browserStorage b)
                   (generateBrokerResponseKey (storage env) (responseThumbprint r))
                   (JSON_stringify_result (collab env) r),
              activeAccount := res_account r, currentBrokerRedirectResponse := None\<rparr>,
            Inr None)
      else ([SuperHandleRedirectPromise hash], b\<lparr>currentBrokerRedirectResponse := None\<rparr>,
            Inr (Some r)))"
  using assms
  by (simp add: handleRedirectPromise_def handleRedirectPromise_begin_def
        handleRedirectPromise_settle_def waitForBrokeredResponse_def setMemoryCacheP_def
        setActiveAccount_def run_simps)

text \<open>
  A redirect that brings tokens for an embedded application: cached, nothing returned. And a
  redirect that brings the Broker's own tokens: returned, nothing cached.
\<close>

theorem handleRedirectPromise_caches_brokered_tokens_witness:
  "handleRedirectPromise exampleEnv None exampleBroker
     = ([SuperHandleRedirectPromise None,
         SetMemoryCache ''https://login.example/common/|embedded-app|User.Read''
           ''serialized-result'',
         SetActiveAccount (Some ''alice'')], committedBroker, Inr None)
   \<and> handleRedirectPromise ownTokensEnv None exampleBroker
     = ([SuperHandleRedirectPromise None], exampleBroker,
        Inr (Some (exampleResult\<lparr>tokensToCache := None\<rparr>)))"
proof -
  have h: "super_handleRedirectPromise (collab exampleEnv) None = Inr (Some exampleResult)"
    by (simp add: exampleEnv_simps)
  have h': "super_handleRedirectPromise (collab ownTokensEnv) None
              = Inr (Some (exampleResult\<lparr>tokensToCache := None\<rparr>))"
    by (simp add: ownTokensEnv_def)
  from handleRedirectPromise_caches_brokered_tokens [OF h, of exampleBroker]
       handleRedirectPromise_caches_brokered_tokens [OF h', of exampleBroker]
  show ?thesis
    by (simp add: exampleEnv_simps committedBroker_def)
qed

subsection \<open>The brokered auth request\<close>

lemma cache_hit_body:
  assumes port: "ports m = p # ps"
    and hit: "getBrokerResponseByThumbprint (storage env) (browserStorage b) (reqThumbprint vm)
                (embeddedAppOrigin vm) = (Some cached, st')"
    and nonempty: "cached \<noteq> []"
    and parse: "JSON_parse_result (collab env) cached = Inr r"
  shows "handleBrokerAuthRequest_body env m vm b =
           ([GetBrokerResponseByThumbprint (reqThumbprint vm) (embeddedAppOrigin vm),
             PostMessage p (BrokerAuthResponse Redirect (Some r) None), ClosePort p],
            b\<lparr>browserStorage := st'\<rparr>, Inr ())"
  using assms
  by (simp add: handleBrokerAuthRequest_body_def getBrokerResponseByThumbprintP_def
        postMessage_def closePort_def port0_def run_simps)

text \<open>
  C3. Take a validated brokered auth request with a port, in a state of the Broker in which
  the probe of the cache with the request's thumbprint and the embedded application's origin
  returns a cached text, which parses to the result \<open>r\<close>. The handler, run in that state
  (at once when no redirect completion is in progress, and otherwise when the awaited
  completion is fulfilled), does exactly this: it probes the cache, posts \<open>r\<close> on the
  port and closes the port. No acquisition method is called.
\<close>

theorem cache_hit_answered_from_cache:
  assumes valid: "BrokerAuthRequest_validate (validate env) m = Some vm"
    and port: "ports m = p # ps"
    and hit: "getBrokerResponseByThumbprint (storage env) (browserStorage b) (reqThumbprint vm)
                (embeddedAppOrigin vm) = (Some cached, st')"
    and nonempty: "cached \<noteq> []"
    and parse: "JSON_parse_result (collab env) cached = Inr r"
  shows "(currentBrokerRedirectResponse b = None \<longrightarrow>
            handleBrokerAuthRequest env m b =
              Completed ([GetBrokerResponseByThumbprint (reqThumbprint vm) (embeddedAppOrigin vm),
                          PostMessage p (BrokerAuthResponse Redirect (Some r) None), ClosePort p],
                         b\<lparr>browserStorage := st'\<rparr>, Inr ()))
       \<and> (\<forall>b0 v. currentBrokerRedirectResponse b0 \<noteq> None \<longrightarrow>
            resume (handleBrokerAuthRequest env m b0) (Fulfilled v) b =
              ([GetBrokerResponseByThumbprint (reqThumbprint vm) (embeddedAppOrigin vm),
                PostMessage p (BrokerAuthResponse Redirect (Some r) None), ClosePort p],
               b\<lparr>browserStorage := st'\<rparr>, Inr ()))"
  using valid cache_hit_body [OF port hit nonempty parse]
  by (auto simp: handleBrokerAuthRequest_def awaitCurrentBrokerRedirectResponse_def resume_def)

text \<open>
  A popup request whose thumbprint is in the cache is answered from the cache, with no popup:
  at once by an idle Broker, and after the barrier by a Broker that was completing a redirect.
\<close>

theorem cache_hit_answered_from_cache_witness:
  "handleBrokerAuthRequest exampleEnv (exampleAuthMessage Popup) committedBroker
     = Completed ([GetBrokerResponseByThumbprint exampleThumbprint ''https://child.example'',
                   PostMessage 7 (BrokerAuthResponse Redirect (Some exampleResult) None),
                   ClosePort 7],
                  committedBroker\<lparr>browserStorage := []\<rparr>, Inr ())
   \<and> resume (handleBrokerAuthRequest exampleEnv (exampleAuthMessage Popup) redirectingBroker)
        (Fulfilled None) committedBroker
     = ([GetBrokerResponseByThumbprint exampleThumbprint ''https://child.example'',
         PostMessage 7 (BrokerAuthResponse Redirect (Some exampleResult) None), ClosePort 7],
        committedBroker\<lparr>browserStorage := []\<rparr>, Inr ())"
proof -
  have valid: "BrokerAuthRequest_validate (validate exampleEnv) (exampleAuthMessage Popup)
                 = Some (exampleValidAuthRequest Popup)"
    by (simp add: exampleEnv_simps exampleValidAuthRequest_def)
  have port: "ports (exampleAuthMessage Popup) = 7 # []"
    by (simp add: exampleAuthMessage_def)
  have hit: "getBrokerResponseByThumbprint (storage exampleEnv) (browserStorage committedBroker)
               (reqThumbprint (exampleValidAuthRequest Popup))
               (embeddedAppOrigin (exampleValidAuthRequest Popup))
             = (Some ''serialized-result'', [])"
    by (simp add: exampleEnv_simps exampleValidAuthRequest_def committedBroker_def
          reqThumbprint_def)
  have nonempty: "''serialized-result'' \<noteq> []"
    by simp
  have parse: "JSON_parse_result (collab exampleEnv) ''serialized-result'' = Inr exampleResult"
    by (simp add: exampleEnv_simps)
  have t: "reqThumbprint (exampleValidAuthRequest Popup) = exampleThumbprint"
    by (simp add: reqThumbprint_def exampleValidAuthRequest_def exampleRequest_def
          exampleThumbprint_def)
  have org: "embeddedAppOrigin (exampleValidAuthRequest Popup) = ''https://child.example''"
    by (simp add: exampleValidAuthRequest_def)
  have idle: "currentBrokerRedirectResponse committedBroker = None"
    by (simp add: committedBroker_def)
  have pending: "currentBrokerRedirectResponse redirectingBroker \<noteq> None"
    by (simp add: redirectingBroker_def)
  from cache_hit_answered_from_cache [OF valid port hit nonempty parse] pending
  show ?thesis
    by (simp add: t org idle)
qed

subsection \<open>The redirect completion as a barrier\<close>

text \<open>
  C2. When a redirect completion is in progress (the Broker holds a promise in
  \<^verbatim>\<open>currentBrokerRedirectResponse\<close>), the handler of an auth request and the handler of a
  redirect-completion request do nothing before they await it: a message that fails its
  validation is dropped with no event and no change of state, and every other run is
  suspended with no event caused and the state unchanged. A suspended run continues, once
  the promise is
  fulfilled, with the body of the handler, which starts with the probe of the cache, in the
  state the Broker has then; once the promise is rejected, it throws the rejection.
\<close>

theorem redirect_completion_is_barrier:
  assumes "currentBrokerRedirectResponse b = Some p"
  shows "(case handleBrokerAuthRequest env m b of
            Completed out \<Rightarrow>
              BrokerAuthRequest_validate (validate env) m = None \<and> out = ([], b, Inr ())
          | Awaiting evs b' k \<Rightarrow>
              evs = [] \<and> b' = b
              \<and> (\<exists>vm. BrokerAuthRequest_validate (validate env) m = Some vm
                    \<and> (\<forall>v. k (Fulfilled v) = handleBrokerAuthRequest_body env m vm)
                    \<and> (\<forall>e. k (RejectedWith e) = throw e)))
       \<and> (case handleBrokerRedirectResponse env m b of
            Completed out \<Rightarrow>
              BrokerHandleRedirectRequest_validate (validate env) m = None
              \<and> out = ([], b, Inr ())
          | Awaiting evs b' k \<Rightarrow>
              evs = [] \<and> b' = b
              \<and> (\<forall>v. k (Fulfilled v) = handleBrokerRedirectResponse_body env m)
              \<and> (\<forall>e. k (RejectedWith e) = throw e))"
  using assms
  by (auto simp: handleBrokerAuthRequest_def handleBrokerRedirectResponse_def
        awaitCurrentBrokerRedirectResponse_def ret_def split: option.splits)

text \<open>
  An auth request arrives while a redirect completion is pending. The run is suspended; the
  completion commits its tokens to the cache; the resumed run probes the cache then, and
  answers with the tokens that were just committed.
\<close>

theorem redirect_completion_is_barrier_witness:
  "handleRedirectPromise_begin None exampleBroker
     = ([SuperHandleRedirectPromise None], redirectingBroker, Inr ())
   \<and> (case handleBrokerAuthRequest exampleEnv (exampleAuthMessage Popup) redirectingBroker of
         Completed out \<Rightarrow> False
       | Awaiting evs b' k \<Rightarrow> evs = [] \<and> b' = redirectingBroker)
   \<and> handleRedirectPromise_settle exampleEnv (Inr (Some exampleResult)) redirectingBroker
       = ([SetMemoryCache ''https://login.example/common/|embedded-app|User.Read''
             ''serialized-result'',
           SetActiveAccount (Some ''alice'')], committedBroker, Inr None)
   \<and> resume (handleBrokerAuthRequest exampleEnv (exampleAuthMessage Popup) redirectingBroker)
        (Fulfilled None) committedBroker
       = ([GetBrokerResponseByThumbprint exampleThumbprint ''https://child.example'',
           PostMessage 7 (BrokerAuthResponse Redirect (Some exampleResult) None), ClosePort 7],
          committedBroker\<lparr>browserStorage := []\<rparr>, Inr ())"
proof -
  have pending: "currentBrokerRedirectResponse redirectingBroker = Some Pending"
    by (simp add: redirectingBroker_def)
  have valid: "BrokerAuthRequest_validate (validate exampleEnv) (exampleAuthMessage Popup)
                 = Some (exampleValidAuthRequest Popup)"
    by (simp add: exampleEnv_simps exampleValidAuthRequest_def)
  have started: "handleRedirectPromise_begin None exampleBroker
     = ([SuperHandleRedirectPromise None], redirectingBroker, Inr ())"
    by (simp add: handleRedirectPromise_begin_def exampleBroker_def redirectingBroker_def)
  have settle: "handleRedirectPromise_settle exampleEnv (Inr (Some exampleResult)) redirectingBroker
       = ([SetMemoryCache ''https://login.example/common/|embedded-app|User.Read''
             ''serialized-result'',
           SetActiveAccount (Some ''alice'')], committedBroker, Inr None)"
    by (simp add: handleRedirectPromise_settle_def waitForBrokeredResponse_def setMemoryCacheP_def
          setActiveAccount_def run_simps exampleEnv_simps redirectingBroker_def committedBroker_def)
  have body: "handleBrokerAuthRequest_body exampleEnv (exampleAuthMessage Popup)
                (exampleValidAuthRequest Popup) committedBroker
       = ([GetBrokerResponseByThumbprint exampleThumbprint ''https://child.example'',
           PostMessage 7 (BrokerAuthResponse Redirect (Some exampleResult) None), ClosePort 7],
          committedBroker\<lparr>browserStorage := []\<rparr>, Inr ())"
    by (simp add: handleBrokerAuthRequest_body_def getBrokerResponseByThumbprintP_def
          reqThumbprint_def postMessage_def closePort_def port0_def run_simps
          exampleEnv_simps exampleValidAuthRequest_def committedBroker_def)
  from redirect_completion_is_barrier
         [OF pending, where env = exampleEnv and m = "exampleAuthMessage Popup"]
  have "case handleBrokerAuthRequest exampleEnv (exampleAuthMessage Popup) redirectingBroker of
          Completed out \<Rightarrow> False
        | Awaiting evs b' k \<Rightarrow>
            evs = [] \<and> b' = redirectingBroker
            \<and> k (Fulfilled None) = handleBrokerAuthRequest_body exampleEnv
                  (exampleAuthMessage Popup) (exampleValidAuthRequest Popup)"
    by (auto simp: valid split: run.splits)
  then show ?thesis
    by (auto simp: started settle body resume_def split: run.splits)
qed

subsection \<open>One response per channel\<close>

lemmas port_simps = respondedOnce_def leftOpen_def port_events_def postMessage_def closePort_def

lemma initializeBrokeredRequest_cases:
  "(\<exists>e. initializeBrokeredRequest env req t org b = ([], b, Inl e))
   \<or> (\<exists>st n a b' req'.
         initializeBrokeredRequest env req t org b = ([UpdateCacheEntries st n a], b', Inr req'))"
  by (simp add: initializeBrokeredRequest_def updateCacheEntriesP_def run_simps Let_def
           split: option.splits sum.splits)

lemma initializeBrokeredRequest_returns:
  assumes "case state req of
             None \<Rightarrow> True
           | Some st \<Rightarrow> st = [] \<or> \<not> isl (parseRequestState (collab env) st)"
  shows "\<exists>st n a b' req'.
           initializeBrokeredRequest env req t org b = ([UpdateCacheEntries st n a], b', Inr req')"
  using assms
  by (auto simp add: initializeBrokeredRequest_def updateCacheEntriesP_def run_simps Let_def
           split: option.splits sum.splits)

lemma brokeredPopupRequest_once:
  "case brokeredPopupRequest env vm (Some p) b of
     (evs, b', out) \<Rightarrow> respondedOnce p evs \<and> out = Inr ()"
proof -
  let ?req = "(request vm)\<lparr>redirectUri := Some (embeddedAppOrigin vm),
               embeddedAppClientId := Some (embeddedClientId vm),
               brokerRedirectUri := Some (getRedirectUri (config env))\<rparr>"
  from initializeBrokeredRequest_cases
         [where env = env and req = ?req and t = Popup and org = "embeddedAppOrigin vm" and b = b]
  show ?thesis
    by (auto simp: brokeredPopupRequest_def Let_def run_simps port_simps split: sum.splits)
qed

lemma brokeredSsoSilentRequest_once:
  "case brokeredSsoSilentRequest env vm (Some p) b of
     (evs, b', out) \<Rightarrow> respondedOnce p evs \<and> out = Inr ()"
proof -
  let ?req = "(request vm)\<lparr>redirectUri := Some (embeddedAppOrigin vm),
               embeddedAppClientId := Some (embeddedClientId vm),
               brokerRedirectUri := Some (getRedirectUri (config env))\<rparr>"
  from initializeBrokeredRequest_cases
         [where env = env and req = ?req and t = Silent and org = "embeddedAppOrigin vm" and b = b]
  show ?thesis
    by (auto simp: brokeredSsoSilentRequest_def Let_def run_simps port_simps split: sum.splits)
qed

lemma brokeredSilentRequest_once:
  "case brokeredSilentRequest env vm (Some p) a b of
     (evs, b', out) \<Rightarrow> respondedOnce p evs \<and> out = Inr ()"
  by (simp add: brokeredSilentRequest_def Let_def run_simps port_simps split: sum.splits)

lemma brokeredRedirectRequest_once:
  assumes "redirectStarts env vm"
  shows "case brokeredRedirectRequest env vm (Some p) b of
     (evs, b', out) \<Rightarrow> respondedOnce p evs \<and> out = Inr ()"
proof -
  let ?req = "(request vm)\<lparr>redirectUri := Some (embeddedAppOrigin vm),
               embeddedAppClientId := Some (embeddedClientId vm),
               brokerRedirectUri := Some (getRedirectUri (config env))\<rparr>"
  from assms have "case state ?req of
                     None \<Rightarrow> True
                   | Some st \<Rightarrow> st = [] \<or> \<not> isl (parseRequestState (collab env) st)"
    by (simp add: redirectStarts_def)
  from initializeBrokeredRequest_returns
         [OF this, where t = Redirect and org = "embeddedAppOrigin vm" and b = b] assms
  show ?thesis
    by (auto simp: brokeredRedirectRequest_def redirectStarts_def Let_def run_simps port_simps)
qed

lemma redirect_completion_once:
  assumes "ports m = p # ps"
  shows "case handleBrokerRedirectResponse_body env m b of
           (evs, b', out) \<Rightarrow> out = Inr () \<longrightarrow> respondedOnce p evs"
  using assms
  by (simp add: handleBrokerRedirectResponse_body_def getBrokerResponseByOriginP_def port0_def
        run_simps port_simps split: prod.splits option.splits sum.splits)

lemma acquire_responds:
  assumes port: "ports m = p # ps"
  shows "case handleBrokerAuthRequest_acquire env m vm b of
           (evs, b', out) \<Rightarrow>
             (if activeAccount b = None \<and> account (request vm) = None
                 \<and> interactionType vm \<noteq> Silent
                 \<and> resolvedInteractionType env vm \<in> {Silent, None_interaction}
              then evs = [] \<and> out = Inr ()
              else (activeAccount b = None \<and> account (request vm) = None
                     \<and> interactionType vm \<noteq> Silent
                     \<and> resolvedInteractionType env vm = Redirect \<longrightarrow> redirectStarts env vm)
                   \<longrightarrow> respondedOnce p evs \<and> out = Inr ())"
proof (cases "activeAccount b \<noteq> None \<or> account (request vm) \<noteq> None")
  case True
  with port brokeredSilentRequest_once
    [where env = env and vm = vm and p = p and a = "activeAccount b" and b = b]
  show ?thesis
    by (auto simp: handleBrokerAuthRequest_acquire_def getActiveAccount_def port0_def bindP_def
             split: prod.splits)
next
  case noAccount: False
  show ?thesis
  proof (cases "interactionType vm = Silent")
    case True
    with noAccount port brokeredSsoSilentRequest_once
      [where env = env and vm = vm and p = p and b = b]
    show ?thesis
      by (auto simp: handleBrokerAuthRequest_acquire_def getActiveAccount_def port0_def bindP_def
               split: prod.splits)
  next
    case notSilent: False
    have acquire: "handleBrokerAuthRequest_acquire env m vm b =
             interactiveBrokerRequest env (resolvedInteractionType env vm) vm m b"
      using noAccount notSilent
      by (cases "interactionType vm")
         (simp_all add: handleBrokerAuthRequest_acquire_def getActiveAccount_def bindP_def
            resolvedInteractionType_def split: prod.splits)
    show ?thesis
    proof (cases "resolvedInteractionType env vm")
      case Redirect
      with noAccount notSilent port acquire brokeredRedirectRequest_once
        [where env = env and vm = vm and p = p and b = b]
      show ?thesis
        by (auto simp: interactiveBrokerRequest_def port0_def split: prod.splits)
    next
      case Popup
      with noAccount notSilent port acquire brokeredPopupRequest_once
        [where env = env and vm = vm and p = p and b = b]
      show ?thesis
        by (auto simp: interactiveBrokerRequest_def port0_def split: prod.splits)
    next
      case Silent
      with noAccount notSilent acquire show ?thesis
        by (simp add: interactiveBrokerRequest_def ret_def)
    next
      case None_interaction
      with noAccount notSilent acquire show ?thesis
        by (simp add: interactiveBrokerRequest_def ret_def)
    qed
  qed
qed

lemma respondedOnce_after_probe:
  "respondedOnce p (GetBrokerResponseByThumbprint t org # evs) = respondedOnce p evs"
  by (simp add: respondedOnce_def port_events_def)

text \<open>
  C4 (as amended). Take a brokered request with a port that has passed its validation and
  the barrier. The handler of a redirect-completion request, when it returns, has posted
  exactly one response on the port and then closed it. So has the handler of an auth request
  when it returns, for a request that is answered from the cache, by the brokered silent
  renewal, by the silent iframe request, by the popup request, or by the redirect request
  when nothing throws after its redirect response. But an auth request that goes to
  \<^verbatim>\<open>interactiveBrokerRequest\<close> with a resolved interaction type (the Broker's preference,
  else the message's) that is \<^verbatim>\<open>Silent\<close> or \<^verbatim>\<open>None\<close> gets no response: the handler
  returns with nothing posted and the port open.
\<close>

theorem one_response_per_channel:
  assumes port: "ports m = p # ps"
  shows "(case handleBrokerRedirectResponse_body env m b of
            (evs, b', out) \<Rightarrow> out = Inr () \<longrightarrow> respondedOnce p evs)
       \<and> (case handleBrokerAuthRequest_body env m vm b of
            (evs, b', out) \<Rightarrow>
              (if interactiveRoute env vm b
                  \<and> resolvedInteractionType env vm \<in> {Silent, None_interaction}
               then leftOpen p evs \<and> out = Inr ()
               else (interactiveRoute env vm b \<and> resolvedInteractionType env vm = Redirect
                       \<longrightarrow> redirectStarts env vm)
                    \<and> out = Inr () \<longrightarrow> respondedOnce p evs))"
proof (rule conjI)
  show "case handleBrokerRedirectResponse_body env m b of
          (evs, b', out) \<Rightarrow> out = Inr () \<longrightarrow> respondedOnce p evs"
    using port by (rule redirect_completion_once)
next
  obtain cached st' where probe:
    "getBrokerResponseByThumbprint (storage env) (browserStorage b) (reqThumbprint vm)
       (embeddedAppOrigin vm) = (cached, st')"
    by (cases "getBrokerResponseByThumbprint (storage env) (browserStorage b) (reqThumbprint vm)
                 (embeddedAppOrigin vm)")
  show "case handleBrokerAuthRequest_body env m vm b of
          (evs, b', out) \<Rightarrow>
            (if interactiveRoute env vm b
                \<and> resolvedInteractionType env vm \<in> {Silent, None_interaction}
             then leftOpen p evs \<and> out = Inr ()
             else (interactiveRoute env vm b \<and> resolvedInteractionType env vm = Redirect
                     \<longrightarrow> redirectStarts env vm)
                  \<and> out = Inr () \<longrightarrow> respondedOnce p evs)"
  proof (cases "isEmpty cached")
    case False
    then obtain c where c: "cached = Some c" "c \<noteq> []"
      by (cases cached) auto
    with probe port show ?thesis
      by (simp add: handleBrokerAuthRequest_body_def getBrokerResponseByThumbprintP_def
            interactiveRoute_def cacheMiss_def port0_def run_simps
            respondedOnce_def port_events_def postMessage_def closePort_def
            split: sum.splits)
  next
    case True
    let ?b = "b\<lparr>browserStorage := st'\<rparr>"
    have body: "handleBrokerAuthRequest_body env m vm b =
            (case handleBrokerAuthRequest_acquire env m vm ?b of
               (evs, b', out) \<Rightarrow>
                 (GetBrokerResponseByThumbprint (reqThumbprint vm) (embeddedAppOrigin vm) # evs,
                  b', out))"
      using True probe
      by (cases cached)
         (simp_all add: handleBrokerAuthRequest_body_def getBrokerResponseByThumbprintP_def
            bindP_def split: prod.splits sum.splits)
    have route: "interactiveRoute env vm b =
            (activeAccount ?b = None \<and> account (request vm) = None
             \<and> interactionType vm \<noteq> Silent)"
      using True probe by (simp add: interactiveRoute_def cacheMiss_def)
    from acquire_responds [OF port, where env = env and vm = vm and b = ?b] show ?thesis
      unfolding body route
      by (auto simp: leftOpen_def port_events_def respondedOnce_after_probe split: prod.splits)
  qed
qed

text \<open>
  With nothing cached and no account: a popup request is answered with the result of the
  popup, a redirect request with the redirect response before the redirect starts, and a
  redirect-completion request with an empty response; each once, and the port is closed.
\<close>

theorem one_response_per_channel_witness:
  "ports (exampleAuthMessage Popup) = [7]
   \<and> port_events 7
        (fst (handleBrokerAuthRequest_body exampleEnv (exampleAuthMessage Popup)
                (exampleValidAuthRequest Popup) exampleBroker))
       = [PostMessage 7 (BrokerAuthResponse Popup (Some exampleResult) None), ClosePort 7]
   \<and> respondedOnce 7
        (fst (handleBrokerAuthRequest_body exampleEnv (exampleAuthMessage Popup)
                (exampleValidAuthRequest Popup) exampleBroker))
   \<and> port_events 7
        (fst (handleBrokerAuthRequest_body exampleEnv (exampleAuthMessage Redirect)
                (exampleValidAuthRequest Redirect) exampleBroker))
       = [PostMessage 7 BrokerRedirectResponse, ClosePort 7]
   \<and> respondedOnce 7
        (fst (handleBrokerAuthRequest_body exampleEnv (exampleAuthMessage Redirect)
                (exampleValidAuthRequest Redirect) exampleBroker))
   \<and> port_events 7
        (fst (handleBrokerRedirectResponse_body exampleEnv exampleHandleRedirectMessage
                exampleBroker))
       = [PostMessage 7 (BrokerAuthResponse Redirect None None), ClosePort 7]
   \<and> respondedOnce 7
        (fst (handleBrokerRedirectResponse_body exampleEnv exampleHandleRedirectMessage
                exampleBroker))"
proof -
  have port: "ports (exampleAuthMessage t) = 7 # []" for t
    by (simp add: exampleAuthMessage_def)
  have port': "ports exampleHandleRedirectMessage = 7 # []"
    by (simp add: exampleHandleRedirectMessage_def)
  have route: "interactiveRoute exampleEnv (exampleValidAuthRequest Popup) exampleBroker"
              "interactiveRoute exampleEnv (exampleValidAuthRequest Redirect) exampleBroker"
    by (simp_all add: interactiveRoute_def cacheMiss_def reqThumbprint_def exampleEnv_simps
          exampleValidAuthRequest_def)
  have resolved: "resolvedInteractionType exampleEnv (exampleValidAuthRequest t) = t" for t
    by (simp add: resolvedInteractionType_def getInteractionType_def exampleEnv_simps
          exampleValidAuthRequest_def)
  have starts: "redirectStarts exampleEnv (exampleValidAuthRequest Redirect)"
    by (simp add: redirectStarts_def exampleEnv_simps exampleValidAuthRequest_def)
  have run1: "handleBrokerAuthRequest_body exampleEnv (exampleAuthMessage Popup)
               (exampleValidAuthRequest Popup) exampleBroker
      = ([GetBrokerResponseByThumbprint exampleThumbprint ''https://child.example'',
          UpdateCacheEntries ''https://child.example'' None (Some ''https://login.example/common/''),
          AcquireTokenPopupAsync
            (exampleRequest\<lparr>state := Some ''https://child.example'',
                            redirectUri := Some ''https://child.example'',
                            embeddedAppClientId := Some ''embedded-app'',
                            brokerRedirectUri := Some ''https://broker.example/''\<rparr>),
          PostMessage 7 (BrokerAuthResponse Popup (Some exampleResult) None), ClosePort 7],
         exampleBroker, Inr ())"
    by (simp add: handleBrokerAuthRequest_body_def handleBrokerAuthRequest_acquire_def
          getBrokerResponseByThumbprintP_def getActiveAccount_def interactiveBrokerRequest_def
          getInteractionType_def brokeredPopupRequest_def initializeBrokeredRequest_def
          updateCacheEntriesP_def postMessage_def closePort_def port0_def reqThumbprint_def
          run_simps exampleEnv_simps exampleValidAuthRequest_def Let_def)
  have run2: "handleBrokerAuthRequest_body exampleEnv (exampleAuthMessage Redirect)
               (exampleValidAuthRequest Redirect) exampleBroker
      = ([GetBrokerResponseByThumbprint exampleThumbprint ''https://child.example'',
          PostMessage 7 BrokerRedirectResponse, ClosePort 7,
          UpdateCacheEntries ''https://child.example'' None (Some ''https://login.example/common/''),
          AcquireTokenRedirectAsync
            (exampleRequest\<lparr>state := Some ''https://child.example'',
                            redirectUri := Some ''https://child.example'',
                            embeddedAppClientId := Some ''embedded-app'',
                            brokerRedirectUri := Some ''https://broker.example/''\<rparr>)],
         exampleBroker, Inr ())"
    by (simp add: handleBrokerAuthRequest_body_def handleBrokerAuthRequest_acquire_def
          getBrokerResponseByThumbprintP_def getActiveAccount_def interactiveBrokerRequest_def
          getInteractionType_def brokeredRedirectRequest_def initializeBrokeredRequest_def
          updateCacheEntriesP_def postMessage_def closePort_def port0_def reqThumbprint_def
          run_simps exampleEnv_simps exampleValidAuthRequest_def Let_def)
  have run3: "handleBrokerRedirectResponse_body exampleEnv exampleHandleRedirectMessage
                exampleBroker
      = ([GetBrokerResponseByOrigin ''https://child.example'',
          PostMessage 7 (BrokerAuthResponse Redirect None None), ClosePort 7],
         exampleBroker, Inr ())"
    by (simp add: handleBrokerRedirectResponse_body_def getBrokerResponseByOriginP_def
          postMessage_def closePort_def port0_def run_simps exampleEnv_simps
          exampleHandleRedirectMessage_def)
  from one_response_per_channel
         [OF port [of Popup], where env = exampleEnv and vm = "exampleValidAuthRequest Popup"
            and b = exampleBroker]
       one_response_per_channel
         [OF port [of Redirect], where env = exampleEnv
            and vm = "exampleValidAuthRequest Redirect" and b = exampleBroker]
       one_response_per_channel
         [OF port', where env = exampleEnv and vm = "exampleValidAuthRequest Redirect"
            and b = exampleBroker]
  show ?thesis
    by (simp add: port route resolved starts run1 run2 run3 port_events_def)
qed

text \<open>
  The claim as it is worded fails: a Broker whose preferred interaction type is \<^verbatim>\<open>None\<close>
  receives a valid popup request on port 7, with nothing cached and no account. The handler
  probes the cache and returns; nothing is posted on the port and it stays open.
\<close>

theorem one_response_per_channel_counterexample:
  "ports (exampleAuthMessage Popup) = [7]
   \<and> BrokerAuthRequest_validate (validate blockingEnv) (exampleAuthMessage Popup)
       = Some (exampleValidAuthRequest Popup)
   \<and> handleBrokerMessage blockingEnv (exampleAuthMessage Popup) exampleBroker
       = Completed ([GetBrokerResponseByThumbprint exampleThumbprint ''https://child.example''],
                    exampleBroker, Inr ())
   \<and> leftOpen 7 [GetBrokerResponseByThumbprint exampleThumbprint ''https://child.example'']"
  by (simp add: handleBrokerMessage_def BrokerMessage_validateMessage_def
        handleBrokerAuthRequest_def awaitCurrentBrokerRedirectResponse_def
        handleBrokerAuthRequest_body_def handleBrokerAuthRequest_acquire_def
        getBrokerResponseByThumbprintP_def getActiveAccount_def interactiveBrokerRequest_def
        getInteractionType_def reqThumbprint_def run_simps leftOpen_def port_events_def
        blockingEnv_def exampleEnv_simps exampleValidAuthRequest_def)

end
